theory Spec2Isabelle
  imports Complex_Main "HOL-Library.Char_ord" "HOL-Library.List_Lexorder"
begin

section \<open>Data model\<close>

text \<open>
  The fund monitor of \<^verbatim>\<open>main.py\<close> replays a trade ledger (the rows of
  \<^verbatim>\<open>trade_log.csv\<close>) and a fetched price history into one \<^verbatim>\<open>Signal\<close> per fund.

  Python floats are read as real numbers and Python ints as \<open>int\<close>. Every text that the
  source builds with an f-string (\<^verbatim>\<open>sig.reason\<close>, the entries of \<^verbatim>\<open>blocks\<close>) is a
  constructor carrying the interpolated values, one constructor per f-string of the source.
\<close>

datatype py_error = ValueError | ZeroDivisionError | KeyError

text \<open>The texts assigned to \<^verbatim>\<open>sig.reason\<close>, in the order of the source (lines 205, 242, 245,
  261, 315, 318/321, 349, 355, 379).\<close>

datatype reason =
    NoReason
  | LowTierBuy int int
  | LowTierFull int int
  | HistoryTooShort nat
  | SellExtraFirst real real
  | SellTriggered real real
  | ExtraBuyTriggered real real real
  | BuyTriggered real real
  | NotTriggered real real real

text \<open>The texts appended to \<^verbatim>\<open>blocks\<close> (lines 293, 307, 336, 338, 342, 372).\<close>

datatype block_reason =
    NoPosition
  | SellCooldown int int
  | QuotaFullExtraUsed int int
  | QuotaFullNoLastBuy int int
  | QuotaFullDropShort int int real real
  | BuyCooldown int int

text \<open>A row of the ledger, with \<^verbatim>\<open>int(row["shares_delta"])\<close> and \<^verbatim>\<open>float(row["nav"])\<close>
  already applied; the note column holds the reason the executor wrote.\<close>

record TradeRecord =
  date :: string
  fund_code :: string
  action :: string
  nav :: real
  shares_delta :: int
  note_text :: reason

text \<open>An entry of the fetched history: \<^verbatim>\<open>{"date": ..., "nav": ...}\<close>.\<close>

type_synonym PricePoint = "string \<times> real"

record Signal =
  sig_fund_code :: string
  fund_name :: string
  sig_category :: string
  current_nav :: real
  current_date :: string
  ma250 :: "real option"
  deviation_pct :: "real option"
  held_shares :: int
  extra_shares :: int
  sig_max_shares :: int
  avg_cost :: "real option"
  pnl_pct :: "real option"
  signal_type :: string
  can_execute :: bool
  reason :: reason
  block_reasons :: "block_reason list"

record threshold =
  buy_pct :: real
  sell_pct :: real

record strategy =
  ma_days :: int
  thresholds :: "string \<rightharpoonup> threshold"
  buy_cooldown_days :: int
  sell_cooldown_days :: int
  cooldown_override_extra_pct :: real
  extra_drop_pct :: real

record fund_cfg =
  code :: string
  name :: string
  category :: string
  volatility :: string
  max_shares :: int

section \<open>Ledger queries\<close>

text \<open>\<^verbatim>\<open>get_current_shares\<close> (lines 110-116): the loop adds the delta of every row of
  the fund, whatever its action.\<close>

fun current_shares_loop :: "string \<Rightarrow> TradeRecord list \<Rightarrow> int \<Rightarrow> int" where
  "current_shares_loop c [] tot = tot"
| "current_shares_loop c (row # rows) tot =
     current_shares_loop c rows
       (if fund_code row = c then tot + shares_delta row else tot)"

definition get_current_shares :: "string \<Rightarrow> TradeRecord list \<Rightarrow> int" where
  "get_current_shares c trade_log = max (current_shares_loop c trade_log 0) 0"

text \<open>\<^verbatim>\<open>get_last_trade_date\<close> (lines 119-124): the first match of the reversed ledger.
  The two inline loops of \<^verbatim>\<open>compute_signals\<close> (lines 298-301 and 361-364) are the same
  search for the actions \<^verbatim>\<open>extra_sell\<close> and \<^verbatim>\<open>extra_buy\<close>.\<close>

definition get_last_trade_date :: "string \<Rightarrow> string \<Rightarrow> TradeRecord list \<Rightarrow> string option" where
  "get_last_trade_date c a trade_log =
     map_option date (find (\<lambda>row. fund_code row = c \<and> action row = a) (rev trade_log))"

text \<open>\<^verbatim>\<open>get_avg_cost\<close> (lines 127-146): the loop state is
  \<^verbatim>\<open>(total_cost, total_shares)\<close>.\<close>

definition avg_cost_step :: "string \<Rightarrow> TradeRecord \<Rightarrow> real \<times> int \<Rightarrow> real \<times> int" where
  "avg_cost_step c row st =
     (case st of (total_cost, total_shares) \<Rightarrow>
        if fund_code row = c then
          (let delta = shares_delta row; nv = nav row in
           if delta > 0 then (total_cost + of_int delta * nv, total_shares + delta)
           else if delta < 0 then
             (if total_shares > 0 then
                (let avg = total_cost / of_int total_shares;
                     sold = min \<bar>delta\<bar> total_shares
                 in (total_cost - of_int sold * avg, total_shares - sold))
              else (total_cost, total_shares))
           else (total_cost, total_shares))
        else (total_cost, total_shares))"

fun avg_cost_loop :: "string \<Rightarrow> TradeRecord list \<Rightarrow> real \<times> int \<Rightarrow> real \<times> int" where
  "avg_cost_loop c [] st = st"
| "avg_cost_loop c (row # rows) st = avg_cost_loop c rows (avg_cost_step c row st)"

definition get_avg_cost :: "string \<Rightarrow> TradeRecord list \<Rightarrow> real option" where
  "get_avg_cost c trade_log =
     (case avg_cost_loop c trade_log (0, 0) of (total_cost, total_shares) \<Rightarrow>
        if total_shares > 0 then Some (total_cost / of_int total_shares) else None)"

text \<open>\<^verbatim>\<open>get_extra_shares\<close> (lines 149-155).\<close>

fun extra_shares_loop :: "string \<Rightarrow> TradeRecord list \<Rightarrow> int \<Rightarrow> int" where
  "extra_shares_loop c [] tot = tot"
| "extra_shares_loop c (row # rows) tot =
     extra_shares_loop c rows
       (if fund_code row = c \<and> (action row = ''extra_buy'' \<or> action row = ''extra_sell'')
        then tot + shares_delta row else tot)"

definition get_extra_shares :: "string \<Rightarrow> TradeRecord list \<Rightarrow> int" where
  "get_extra_shares c trade_log = max (extra_shares_loop c trade_log 0) 0"

text \<open>\<^verbatim>\<open>has_used_extra\<close> (lines 158-163).\<close>

fun has_used_extra :: "string \<Rightarrow> TradeRecord list \<Rightarrow> bool" where
  "has_used_extra c [] = False"
| "has_used_extra c (row # rows) =
     (if fund_code row = c \<and> action row = ''extra_buy'' then True else has_used_extra c rows)"

text \<open>\<^verbatim>\<open>get_last_buy_nav\<close> (lines 166-171).\<close>

definition get_last_buy_nav :: "string \<Rightarrow> TradeRecord list \<Rightarrow> real option" where
  "get_last_buy_nav c trade_log =
     map_option nav
       (find (\<lambda>row. fund_code row = c \<and> (action row = ''buy'' \<or> action row = ''extra_buy''))
          (rev trade_log))"

section \<open>Signal engine\<close>

text \<open>What a run reads from outside the program: the day number of
  \<^verbatim>\<open>datetime.now()\<close>, the library call \<^verbatim>\<open>datetime.strptime(s, "%Y-%m-%d")\<close> as the day
  number of the parsed date (\<open>None\<close> where it raises \<^verbatim>\<open>ValueError\<close>), and the price
  provider \<^verbatim>\<open>fetch_nav_history(fund_code, days)\<close>, which returns the ascending history
  and the empty list on any failure.\<close>

record world =
  today :: int
  strptime :: "string \<Rightarrow> int option"
  fetch_nav_history :: "string \<Rightarrow> int \<Rightarrow> PricePoint list"

text \<open>\<^verbatim>\<open>fetch_current_nav\<close> (lines 74-80).\<close>

definition fetch_current_nav :: "world \<Rightarrow> string \<Rightarrow> PricePoint option" where
  "fetch_current_nav w c =
     (let records = fetch_nav_history w c 3
      in if records \<noteq> [] then Some (last records) else None)"

text \<open>\<^verbatim>\<open>Signal.__init__\<close> (lines 189-206).\<close>

definition new_signal :: "string \<Rightarrow> string \<Rightarrow> string \<Rightarrow> Signal" where
  "new_signal c n cat =
     \<lparr>sig_fund_code = c, fund_name = n, sig_category = cat, current_nav = 0,
      current_date = [], ma250 = None, deviation_pct = None, held_shares = 0,
      extra_shares = 0, sig_max_shares = 0, avg_cost = None, pnl_pct = None,
      signal_type = [], can_execute = False, reason = NoReason, block_reasons = []\<rparr>"

text \<open>Python's slice \<^verbatim>\<open>xs[i:]\<close>: a negative start counts from the end and is clamped
  at the front of the list.\<close>

definition slice_from :: "int \<Rightarrow> 'a list \<Rightarrow> 'a list" where
  "slice_from i xs =
     (if i < 0 then drop (nat (int (length xs) + i)) xs else drop (nat i) xs)"

text \<open>Lines 270-272: \<^verbatim>\<open>window = min(len(nav_values), ma_days)\<close> and
  \<^verbatim>\<open>sum(nav_values[-window:]) / window\<close>; the division raises when the window is 0.\<close>

definition moving_average :: "int \<Rightarrow> real list \<Rightarrow> py_error + real" where
  "moving_average md nav_values =
     (let window = min (int (length nav_values)) md
      in if window = 0 then Inl ZeroDivisionError
         else Inr (sum_list (slice_from (- window) nav_values) / of_int window))"

text \<open>Line 273: \<^verbatim>\<open>(sig.current_nav - sig.ma250) / sig.ma250 * 100\<close>.\<close>

definition deviation :: "real \<Rightarrow> real \<Rightarrow> py_error + real" where
  "deviation cur ma = (if ma = 0 then Inl ZeroDivisionError else Inr ((cur - ma) / ma * 100))"

text \<open>\<^verbatim>\<open>max(filter(None, [a, b]), default=None)\<close> (lines 303 and 365): \<open>None\<close> and the
  empty string are filtered out, and \<^verbatim>\<open>max\<close> compares the date strings as strings.\<close>

definition recent_of :: "string option \<Rightarrow> string option \<Rightarrow> string option" where
  "recent_of a b =
     (case List.map_filter
             (\<lambda>x. case x of None \<Rightarrow> None | Some s \<Rightarrow> if s = [] then None else Some s) [a, b] of
        [] \<Rightarrow> None
      | s # ss \<Rightarrow> Some (foldl max s ss))"

text \<open>The anchor dates of the two cooldowns, under the source's names (lines 296-303 and
  359-365).\<close>

definition recent_sell :: "string \<Rightarrow> TradeRecord list \<Rightarrow> string option" where
  "recent_sell c trade_log =
     recent_of (get_last_trade_date c ''sell'' trade_log)
               (get_last_trade_date c ''extra_sell'' trade_log)"

definition recent_buy :: "string \<Rightarrow> TradeRecord list \<Rightarrow> string option" where
  "recent_buy c trade_log =
     recent_of (get_last_trade_date c ''buy'' trade_log)
               (get_last_trade_date c ''extra_buy'' trade_log)"

text \<open>\<^verbatim>\<open>if recent: days_since = (today - datetime.strptime(recent, "%Y-%m-%d")).days\<close>
  (lines 304-305 and 366-367): no anchor gives no day count; the parsed date is at midnight
  and \<^verbatim>\<open>today\<close> is later in its day by less than a day, so the whole days between them
  are the difference of the day numbers.\<close>

definition days_since :: "world \<Rightarrow> string option \<Rightarrow> py_error + int option" where
  "days_since w recent =
     (case recent of
        None \<Rightarrow> Inr None
      | Some s \<Rightarrow>
          (case strptime w s of None \<Rightarrow> Inl ValueError | Some d \<Rightarrow> Inr (Some (today w - d))))"

text \<open>The low-volatility branch (lines 236-253).\<close>

definition low_branch :: "world \<Rightarrow> TradeRecord list \<Rightarrow> fund_cfg \<Rightarrow> Signal \<Rightarrow> Signal" where
  "low_branch w trade_log f sg =
     (let held = get_current_shares (code f) trade_log;
          sg1 = sg\<lparr>held_shares := held\<rparr>;
          sg2 = (if held < max_shares f
                 then sg1\<lparr>signal_type := ''hold_buy'', can_execute := True,
                          reason := LowTierBuy held (max_shares f)\<rparr>
                 else sg1\<lparr>signal_type := ''none'', reason := LowTierFull held (max_shares f)\<rparr>)
      in case fetch_current_nav w (code f) of
           None \<Rightarrow> sg2
         | Some (d, n) \<Rightarrow> sg2\<lparr>current_date := d, current_nav := n\<rparr>)"

text \<open>The sell branch (lines 288-321).\<close>

definition sell_cooldown_check ::
  "world \<Rightarrow> strategy \<Rightarrow> TradeRecord list \<Rightarrow> string \<Rightarrow> block_reason list
     \<Rightarrow> py_error + block_reason list" where
  "sell_cooldown_check w st trade_log c blocks =
     (case days_since w (recent_sell c trade_log) of
        Inl e \<Rightarrow> Inl e
      | Inr None \<Rightarrow> Inr blocks
      | Inr (Some n) \<Rightarrow>
          Inr (if n < sell_cooldown_days st
               then blocks @ [SellCooldown n (sell_cooldown_days st)] else blocks))"

definition sell_branch ::
  "world \<Rightarrow> strategy \<Rightarrow> TradeRecord list \<Rightarrow> string \<Rightarrow> real \<Rightarrow> real \<Rightarrow> Signal
     \<Rightarrow> py_error + Signal" where
  "sell_branch w st trade_log c dev sell_th sg =
     (let total_held = held_shares sg + extra_shares sg;
          blocks0 = (if total_held \<le> 0 then [NoPosition] else [])
      in case sell_cooldown_check w st trade_log c blocks0 of
           Inl e \<Rightarrow> Inl e
         | Inr blocks \<Rightarrow>
             Inr (let sg1 = sg\<lparr>block_reasons := blocks, can_execute := (length blocks = 0)\<rparr>
                  in if extra_shares sg > 0
                     then sg1\<lparr>signal_type := ''extra_sell'', reason := SellExtraFirst dev sell_th\<rparr>
                     else if held_shares sg > 0
                     then sg1\<lparr>signal_type := ''sell'', reason := SellTriggered dev sell_th\<rparr>
                     else sg1\<lparr>signal_type := ''sell'', reason := SellTriggered dev sell_th\<rparr>))"

text \<open>The buy branch: the quota and extra-buy decision (lines 325-355), the cooldown
  (lines 357-372) and the verdict (lines 374-375).\<close>

definition quota_check ::
  "strategy \<Rightarrow> TradeRecord list \<Rightarrow> string \<Rightarrow> int \<Rightarrow> real \<Rightarrow> real \<Rightarrow> Signal
     \<Rightarrow> py_error + block_reason list \<times> Signal" where
  "quota_check st trade_log c mx dev buy_th sg =
     (let quota_full = (held_shares sg \<ge> mx) in
      if quota_full then
        (let used_extra = has_used_extra c trade_log in
         if used_extra then Inr ([QuotaFullExtraUsed (held_shares sg) mx], sg)
         else
           (case get_last_buy_nav c trade_log of
              None \<Rightarrow> Inr ([QuotaFullNoLastBuy (held_shares sg) mx], sg)
            | Some last_buy_nav \<Rightarrow>
                if last_buy_nav = 0 then Inl ZeroDivisionError
                else
                  (let drop_from_last = (current_nav sg - last_buy_nav) / last_buy_nav * 100 in
                   if drop_from_last > extra_drop_pct st
                   then Inr ([QuotaFullDropShort (held_shares sg) mx drop_from_last
                                (extra_drop_pct st)], sg)
                   else Inr ([], sg\<lparr>signal_type := ''extra_buy'',
                                     reason := ExtraBuyTriggered dev last_buy_nav drop_from_last\<rparr>))))
      else Inr ([], sg\<lparr>signal_type := ''buy'', reason := BuyTriggered dev buy_th\<rparr>))"

definition buy_cooldown_check ::
  "world \<Rightarrow> strategy \<Rightarrow> TradeRecord list \<Rightarrow> string \<Rightarrow> real \<Rightarrow> real \<Rightarrow> block_reason list
     \<Rightarrow> Signal \<Rightarrow> py_error + block_reason list" where
  "buy_cooldown_check w st trade_log c dev buy_th blocks sg =
     (if signal_type sg = ''buy'' \<or> signal_type sg = ''extra_buy'' then
        (case days_since w (recent_buy c trade_log) of
           Inl e \<Rightarrow> Inl e
         | Inr None \<Rightarrow> Inr blocks
         | Inr (Some n) \<Rightarrow>
             Inr (if n < buy_cooldown_days st
                  then (if dev \<le> buy_th - cooldown_override_extra_pct st then blocks
                        else blocks @ [BuyCooldown n (buy_cooldown_days st)])
                  else blocks))
      else Inr blocks)"

definition buy_branch ::
  "world \<Rightarrow> strategy \<Rightarrow> TradeRecord list \<Rightarrow> string \<Rightarrow> int \<Rightarrow> real \<Rightarrow> real \<Rightarrow> Signal
     \<Rightarrow> py_error + Signal" where
  "buy_branch w st trade_log c mx dev buy_th sg =
     (case quota_check st trade_log c mx dev buy_th sg of
        Inl e \<Rightarrow> Inl e
      | Inr (blocks0, sg1) \<Rightarrow>
          (case buy_cooldown_check w st trade_log c dev buy_th blocks0 sg1 of
             Inl e \<Rightarrow> Inl e
           | Inr blocks \<Rightarrow>
               Inr (sg1\<lparr>block_reasons := blocks,
                        can_execute := (length blocks = 0 \<and>
                          (signal_type sg1 = ''buy'' \<or> signal_type sg1 = ''extra_buy''))\<rparr>)))"

text \<open>The tier thresholds (line 283): \<^verbatim>\<open>thresholds.get(vol, thresholds["mid"])\<close> looks
  the default up first, so a table without \<^verbatim>\<open>mid\<close> raises \<^verbatim>\<open>KeyError\<close>.\<close>

definition tier_thresholds :: "strategy \<Rightarrow> string \<Rightarrow> py_error + threshold" where
  "tier_thresholds st vol =
     (case thresholds st ''mid'' of
        None \<Rightarrow> Inl KeyError
      | Some mid \<Rightarrow> Inr (case thresholds st vol of None \<Rightarrow> mid | Some th \<Rightarrow> th))"

text \<open>The moving-average strategy of the other tiers (lines 256-379).\<close>

definition timing_branch ::
  "world \<Rightarrow> strategy \<Rightarrow> TradeRecord list \<Rightarrow> fund_cfg \<Rightarrow> Signal \<Rightarrow> py_error + Signal" where
  "timing_branch w st trade_log f sg =
     (let c = code f;
          history = fetch_nav_history w c (ma_days st + 30)
      in if length history < 60
         then Inr (sg\<lparr>signal_type := ''none'', reason := HistoryTooShort (length history)\<rparr>)
         else
           (let sg1 = sg\<lparr>current_nav := snd (last history), current_date := fst (last history)\<rparr>
            in case moving_average (ma_days st) (map snd history) of
                 Inl e \<Rightarrow> Inl e
               | Inr ma \<Rightarrow>
                   (case deviation (current_nav sg1) ma of
                      Inl e \<Rightarrow> Inl e
                    | Inr dev \<Rightarrow>
                        (let ac = get_avg_cost c trade_log;
                             sg2 = sg1\<lparr>ma250 := Some ma, deviation_pct := Some dev,
                                       held_shares := get_current_shares c trade_log,
                                       extra_shares := get_extra_shares c trade_log,
                                       avg_cost := ac,
                                       pnl_pct :=
                                         (case ac of
                                            None \<Rightarrow> None
                                          | Some a \<Rightarrow>
                                              if a \<noteq> 0 \<and> a > 0
                                              then Some ((current_nav sg1 - a) / a * 100)
                                              else None)\<rparr>
                         in case tier_thresholds st (volatility f) of
                              Inl e \<Rightarrow> Inl e
                            | Inr th \<Rightarrow>
                                (let buy_th = buy_pct th; sell_th = sell_pct th in
                                 if dev \<ge> sell_th
                                 then sell_branch w st trade_log c dev sell_th sg2
                                 else if dev \<le> buy_th
                                 then buy_branch w st trade_log c (max_shares f) dev buy_th sg2
                                 else Inr (sg2\<lparr>signal_type := ''none'',
                                               reason := NotTriggered dev buy_th sell_th\<rparr>))))))"

text \<open>Lines 230-231: \<^verbatim>\<open>sig = Signal(code, name, category); sig.max_shares = max_shares\<close>.\<close>

definition init_signal :: "fund_cfg \<Rightarrow> Signal" where
  "init_signal f = (new_signal (code f) (name f) (category f))\<lparr>sig_max_shares := max_shares f\<rparr>"

text \<open>One pass of the loop of \<^verbatim>\<open>compute_signals\<close> (lines 223-381).\<close>

definition fund_signal ::
  "world \<Rightarrow> strategy \<Rightarrow> TradeRecord list \<Rightarrow> fund_cfg \<Rightarrow> py_error + Signal" where
  "fund_signal w st trade_log f =
     (let sg = init_signal f
      in if volatility f = ''low'' then Inr (low_branch w trade_log f sg)
         else timing_branch w st trade_log f sg)"

text \<open>\<^verbatim>\<open>compute_signals\<close> (lines 209-384): an exception in one fund ends the run.\<close>

fun compute_loop ::
  "world \<Rightarrow> strategy \<Rightarrow> TradeRecord list \<Rightarrow> fund_cfg list \<Rightarrow> Signal list
     \<Rightarrow> py_error + Signal list" where
  "compute_loop w st trade_log [] signals = Inr signals"
| "compute_loop w st trade_log (f # fs) signals =
     (case fund_signal w st trade_log f of
        Inl e \<Rightarrow> Inl e
      | Inr sg \<Rightarrow> compute_loop w st trade_log fs (signals @ [sg]))"

record config =
  strategy :: strategy
  funds :: "fund_cfg list"

definition compute_signals :: "world \<Rightarrow> config \<Rightarrow> TradeRecord list \<Rightarrow> py_error + Signal list" where
  "compute_signals w cfg trade_log = compute_loop w (strategy cfg) trade_log (funds cfg) []"

section \<open>Executor\<close>

text \<open>\<^verbatim>\<open>append_trade_log\<close> (lines 103-107) and \<^verbatim>\<open>execute_signals\<close> (lines 391-425); the
  ledger file is the list that is handed on.\<close>

definition append_trade_log ::
  "TradeRecord list \<Rightarrow> string \<Rightarrow> string \<Rightarrow> string \<Rightarrow> real \<Rightarrow> int \<Rightarrow> reason
     \<Rightarrow> TradeRecord list" where
  "append_trade_log trade_log d c a n delta nt =
     trade_log @ [\<lparr>date = d, fund_code = c, action = a, nav = n, shares_delta = delta,
                   note_text = nt\<rparr>]"

definition execute_one ::
  "bool \<Rightarrow> Signal \<Rightarrow> Signal list \<times> TradeRecord list \<Rightarrow> Signal list \<times> TradeRecord list" where
  "execute_one dry_run sg st =
     (case st of (executed, trade_log) \<Rightarrow>
        if \<not> can_execute sg then (executed, trade_log)
        else if signal_type sg = ''buy'' \<or> signal_type sg = ''hold_buy'' then
          (executed @ [sg],
           if \<not> dry_run
           then append_trade_log trade_log (current_date sg) (sig_fund_code sg) ''buy''
                  (current_nav sg) 1 (reason sg)
           else trade_log)
        else if signal_type sg = ''extra_buy'' then
          (executed @ [sg],
           if \<not> dry_run
           then append_trade_log trade_log (current_date sg) (sig_fund_code sg) ''extra_buy''
                  (current_nav sg) 1 (reason sg)
           else trade_log)
        else if signal_type sg = ''sell'' then
          (executed @ [sg],
           if \<not> dry_run
           then append_trade_log trade_log (current_date sg) (sig_fund_code sg) ''sell''
                  (current_nav sg) (- 1) (reason sg)
           else trade_log)
        else if signal_type sg = ''extra_sell'' then
          (executed @ [sg],
           if \<not> dry_run
           then append_trade_log trade_log (current_date sg) (sig_fund_code sg) ''extra_sell''
                  (current_nav sg) (- 1) (reason sg)
           else trade_log)
        else (executed, trade_log))"

fun execute_loop ::
  "bool \<Rightarrow> Signal list \<Rightarrow> Signal list \<times> TradeRecord list \<Rightarrow> Signal list \<times> TradeRecord list" where
  "execute_loop dry_run [] st = st"
| "execute_loop dry_run (sg # sgs) st = execute_loop dry_run sgs (execute_one dry_run sg st)"

definition execute_signals ::
  "Signal list \<Rightarrow> bool \<Rightarrow> TradeRecord list \<Rightarrow> Signal list \<times> TradeRecord list" where
  "execute_signals signals dry_run trade_log = execute_loop dry_run signals ([], trade_log)"

text \<open>One run of \<^verbatim>\<open>main\<close> (lines 663-670): the ledger is read, the signals are computed
  and the executable ones are appended. An exception of \<^verbatim>\<open>compute_signals\<close> ends the run
  before anything is written.\<close>

definition run ::
  "world \<Rightarrow> config \<Rightarrow> bool \<Rightarrow> TradeRecord list \<Rightarrow> py_error + TradeRecord list" where
  "run w cfg dry_run trade_log =
     (case compute_signals w cfg trade_log of
        Inl e \<Rightarrow> Inl e
      | Inr signals \<Rightarrow> Inr (snd (execute_signals signals dry_run trade_log)))"

text \<open>A sequence of runs over the same ledger file, each with its own day, prices,
  configuration and \<^verbatim>\<open>--dry-run\<close> flag.\<close>

fun runs :: "(world \<times> config \<times> bool) list \<Rightarrow> TradeRecord list \<Rightarrow> TradeRecord list" where
  "runs [] trade_log = trade_log"
| "runs ((w, cfg, dry_run) # rs) trade_log =
     runs rs (case run w cfg dry_run trade_log of Inl e \<Rightarrow> trade_log | Inr trade_log' \<Rightarrow> trade_log')"

section \<open>Observations used in the statements\<close>

text \<open>The variable \<^verbatim>\<open>total_shares\<close> of \<^verbatim>\<open>get_avg_cost\<close> at the end of its loop.\<close>

definition acquired_shares :: "string \<Rightarrow> TradeRecord list \<Rightarrow> int" where
  "acquired_shares c trade_log = snd (avg_cost_loop c trade_log (0, 0))"

text \<open>The number of \<^verbatim>\<open>extra_buy\<close> rows of a fund in the ledger.\<close>

definition extra_buy_count :: "string \<Rightarrow> TradeRecord list \<Rightarrow> nat" where
  "extra_buy_count c trade_log =
     length (filter (\<lambda>row. fund_code row = c \<and> action row = ''extra_buy'') trade_log)"

text \<open>The regular position as the specification words it: the sum of the deltas of the
  fund's \<^verbatim>\<open>buy\<close> and \<^verbatim>\<open>sell\<close> rows, floored at 0.\<close>

definition spec_current_shares :: "string \<Rightarrow> TradeRecord list \<Rightarrow> int" where
  "spec_current_shares c trade_log =
     max (sum_list (map shares_delta
            (filter (\<lambda>row. fund_code row = c \<and> (action row = ''buy'' \<or> action row = ''sell''))
               trade_log))) 0"

text \<open>The row \<^verbatim>\<open>execute_signals\<close> appends for an executable signal (lines 397-423):
  \<^verbatim>\<open>hold_buy\<close> is written as \<^verbatim>\<open>buy\<close>, and the delta is -1 for the two sell types.\<close>

definition appended_row :: "Signal \<Rightarrow> TradeRecord" where
  "appended_row sg =
     \<lparr>date = current_date sg, fund_code = sig_fund_code sg,
      action = (if signal_type sg = ''hold_buy'' then ''buy'' else signal_type sg),
      nav = current_nav sg,
      shares_delta = (if signal_type sg = ''sell'' \<or> signal_type sg = ''extra_sell'' then - 1 else 1),
      note_text = reason sg\<rparr>"

text \<open>The signal types for which \<^verbatim>\<open>execute_signals\<close> has a branch.\<close>

definition executable_type :: "Signal \<Rightarrow> bool" where
  "executable_type sg =
     (signal_type sg = ''hold_buy'' \<or> signal_type sg = ''buy'' \<or> signal_type sg = ''extra_buy'' \<or>
      signal_type sg = ''sell'' \<or> signal_type sg = ''extra_sell'')"

section \<open>Example data\<close>

definition trade :: "string \<Rightarrow> string \<Rightarrow> string \<Rightarrow> real \<Rightarrow> int \<Rightarrow> TradeRecord" where
  "trade d c a n delta =
     \<lparr>date = d, fund_code = c, action = a, nav = n, shares_delta = delta,
      note_text = NoReason\<rparr>"

definition example_strategy :: strategy where
  "example_strategy =
     \<lparr>ma_days = 250,
      thresholds = [''mid'' \<mapsto> \<lparr>buy_pct = - 15, sell_pct = 20\<rparr>],
      buy_cooldown_days = 30, sell_cooldown_days = 30,
      cooldown_override_extra_pct = 5, extra_drop_pct = 8\<rparr>"

text \<open>The day numbers (\<^verbatim>\<open>date.toordinal()\<close>) of the dates the examples use; every other
  string is taken as unparsable.\<close>

definition example_calendar :: "string \<Rightarrow> int option" where
  "example_calendar s =
     (if s = ''2025-01-02'' then Some 739253
      else if s = ''2024-01-02'' then Some 738887
      else None)"

text \<open>Sixty price points: 58 at \<open>base\<close>, then \<open>p\<close> and \<open>q\<close>.\<close>

definition example_history :: "real \<Rightarrow> real \<Rightarrow> real \<Rightarrow> PricePoint list" where
  "example_history base p q =
     replicate 58 (''2024-12-31'', base) @ [(''2025-01-10'', p), (''2025-01-11'', q)]"

text \<open>A run on 2025-01-12 in which the provider answers every request with \<open>h\<close>.\<close>

definition example_world :: "PricePoint list \<Rightarrow> world" where
  "example_world h =
     \<lparr>today = 739263, strptime = example_calendar, fetch_nav_history = (\<lambda>c days. h)\<rparr>"

definition example_fund :: "string \<Rightarrow> int \<Rightarrow> fund_cfg" where
  "example_fund vol mx =
     \<lparr>code = ''X'', name = ''Fund X'', category = ''equity'', volatility = vol, max_shares = mx\<rparr>"

text \<open>Ten regular buys of fund X a year before the run, the last one at nav 1.\<close>

definition full_quota_ledger :: "TradeRecord list" where
  "full_quota_ledger =
     replicate 9 (trade ''2024-01-02'' ''X'' ''buy'' 1.2 1) @
     [trade ''2024-01-02'' ''X'' ''buy'' 1 1]"

definition example_config :: "fund_cfg list \<Rightarrow> config" where
  "example_config fs = \<lparr>strategy = example_strategy, funds = fs\<rparr>"

section \<open>The ledger queries\<close>

lemma current_shares_loop_sum:
  "current_shares_loop c rows tot =
     tot + sum_list (map shares_delta (filter (\<lambda>row. fund_code row = c) rows))"
  by (induction rows arbitrary: tot) simp_all

lemma get_current_shares_all_actions:
  "get_current_shares c trade_log =
     max (sum_list (map shares_delta (filter (\<lambda>row. fund_code row = c) trade_log))) 0"
  by (simp add: get_current_shares_def current_shares_loop_sum)

lemma get_current_shares_nonneg: "0 \<le> get_current_shares c trade_log"
  by (simp add: get_current_shares_def)

lemma get_extra_shares_nonneg: "0 \<le> get_extra_shares c trade_log"
  by (simp add: get_extra_shares_def)

text \<open>
  C1. The specification takes the regular position to be the sum of the deltas of the
  \<^verbatim>\<open>buy\<close> and \<^verbatim>\<open>sell\<close> rows only. \<^verbatim>\<open>get_current_shares\<close> has no test on the action:
  on a ledger with one \<^verbatim>\<open>buy\<close> and one \<^verbatim>\<open>extra_buy\<close> of a fund it returns 2 where the
  specification gives 1, although \<^verbatim>\<open>get_extra_shares\<close> counts the same \<^verbatim>\<open>extra_buy\<close> row
  as the extra position, so that the total of regular and extra shares is 3 for two
  shares bought.
\<close>

theorem get_current_shares_counts_extra_rows:
  "get_current_shares ''F''
     [trade ''2025-01-02'' ''F'' ''buy'' 1 1, trade ''2025-03-03'' ''F'' ''extra_buy'' 0.9 1] = 2 \<and>
   spec_current_shares ''F''
     [trade ''2025-01-02'' ''F'' ''buy'' 1 1, trade ''2025-03-03'' ''F'' ''extra_buy'' 0.9 1] = 1 \<and>
   get_extra_shares ''F''
     [trade ''2025-01-02'' ''F'' ''buy'' 1 1, trade ''2025-03-03'' ''F'' ''extra_buy'' 0.9 1] = 1"
  by (simp add: get_current_shares_def spec_current_shares_def get_extra_shares_def trade_def)

subsection \<open>Average cost\<close>

lemma avg_cost_loop_append:
  "avg_cost_loop c (xs @ ys) st = avg_cost_loop c ys (avg_cost_loop c xs st)"
  by (induction xs arbitrary: st) simp_all

text \<open>The loop keeps the share count non-negative, and the cost is 0 when no share is
  left.\<close>

lemma avg_cost_step_inv:
  assumes "0 \<le> snd st" and "snd st = 0 \<longrightarrow> fst st = 0"
  shows "0 \<le> snd (avg_cost_step c row st) \<and>
         (snd (avg_cost_step c row st) = 0 \<longrightarrow> fst (avg_cost_step c row st) = 0)"
  using assms by (cases st) (auto simp: avg_cost_step_def Let_def min_def split: if_splits)

lemma avg_cost_loop_inv:
  assumes "0 \<le> snd st" and "snd st = 0 \<longrightarrow> fst st = 0"
  shows "0 \<le> snd (avg_cost_loop c rows st) \<and>
         (snd (avg_cost_loop c rows st) = 0 \<longrightarrow> fst (avg_cost_loop c rows st) = 0)"
  using assms
proof (induction rows arbitrary: st)
  case Nil
  then show ?case by simp
next
  case (Cons row rows)
  from avg_cost_step_inv [OF Cons.prems, of c row] show ?case
    by (simp add: Cons.IH)
qed

lemma avg_state_inv:
  "avg_cost_loop c trade_log (0, 0) = (tc, ts) \<Longrightarrow> 0 \<le> ts \<and> (ts = 0 \<longrightarrow> tc = 0)"
  using avg_cost_loop_inv [of "(0, 0)" c trade_log] by simp

lemma acquired_shares_nonneg: "0 \<le> acquired_shares c trade_log"
  using avg_state_inv [of c trade_log] by (cases "avg_cost_loop c trade_log (0, 0)")
    (simp add: acquired_shares_def)

lemma get_avg_cost_None_iff:
  "(get_avg_cost c trade_log = None) = (acquired_shares c trade_log = 0)"
  using acquired_shares_nonneg [of c trade_log]
  by (auto simp: get_avg_cost_def acquired_shares_def split: prod.splits)

lemma disposal_step:
  assumes "fund_code row = c" "shares_delta row < 0" "0 < ts"
  shows "avg_cost_step c row (tc, ts) =
           (if - shares_delta row < ts
            then ((tc / of_int ts) * of_int (ts + shares_delta row), ts + shares_delta row)
            else (0, 0))"
  using assms by (auto simp: avg_cost_step_def Let_def min_def field_simps)

lemma get_avg_cost_disposal:
  assumes "fund_code row = c" "shares_delta row < 0" "get_avg_cost c trade_log = Some a"
  shows "get_avg_cost c (trade_log @ [row]) =
           (if - shares_delta row < acquired_shares c trade_log then Some a else None)"
proof -
  obtain tc ts where st: "avg_cost_loop c trade_log (0, 0) = (tc, ts)"
    by (cases "avg_cost_loop c trade_log (0, 0)")
  with assms(3) have pos: "0 < ts" and a: "a = tc / of_int ts"
    by (auto simp: get_avg_cost_def split: if_splits)
  show ?thesis
    using pos a st disposal_step [OF assms(1,2) pos, of tc]
    by (auto simp: get_avg_cost_def acquired_shares_def avg_cost_loop_append)
qed

lemma acquired_shares_disposal:
  assumes "fund_code row = c" "shares_delta row < 0"
  shows "acquired_shares c (trade_log @ [row]) =
           max (acquired_shares c trade_log + shares_delta row) 0"
proof -
  obtain tc ts where st: "avg_cost_loop c trade_log (0, 0) = (tc, ts)"
    by (cases "avg_cost_loop c trade_log (0, 0)")
  have "0 \<le> ts" using avg_state_inv [OF st] by simp
  then show ?thesis using assms st
    by (auto simp: acquired_shares_def avg_cost_loop_append avg_cost_step_def Let_def min_def)
qed

lemma get_avg_cost_acquisition:
  assumes "fund_code row = c" "0 < shares_delta row"
  shows "get_avg_cost c (trade_log @ [row]) =
           Some (((case get_avg_cost c trade_log of None \<Rightarrow> 0 | Some a \<Rightarrow> a)
                    * of_int (acquired_shares c trade_log)
                  + of_int (shares_delta row) * nav row)
                 / of_int (acquired_shares c trade_log + shares_delta row))"
proof -
  obtain tc ts where st: "avg_cost_loop c trade_log (0, 0) = (tc, ts)"
    by (cases "avg_cost_loop c trade_log (0, 0)")
  from avg_state_inv [OF st] show ?thesis using assms st
    by (auto simp: get_avg_cost_def acquired_shares_def avg_cost_loop_append avg_cost_step_def
        Let_def)
qed

text \<open>
  C6. \<^verbatim>\<open>get_avg_cost\<close> is a running weighted average. With floats read as reals:
  it returns \<open>None\<close> exactly when the loop ends with no acquired share held; a disposal
  appended to a ledger with average cost \<open>a\<close> leaves the average cost \<open>a\<close> as long as
  shares remain (and \<open>None\<close> when it sells them all), the held count going down by the
  shares sold; an acquisition appended gives the average of the former cost and the new
  nav, weighted by the shares.
\<close>

theorem get_avg_cost_running_average:
  "(get_avg_cost c trade_log = None) = (acquired_shares c trade_log = 0) \<and>
   (fund_code row = c \<and> shares_delta row < 0 \<and> get_avg_cost c trade_log = Some a \<longrightarrow>
      get_avg_cost c (trade_log @ [row]) =
        (if - shares_delta row < acquired_shares c trade_log then Some a else None) \<and>
      acquired_shares c (trade_log @ [row]) =
        max (acquired_shares c trade_log + shares_delta row) 0) \<and>
   (fund_code row = c \<and> 0 < shares_delta row \<longrightarrow>
      get_avg_cost c (trade_log @ [row]) =
        Some (((case get_avg_cost c trade_log of None \<Rightarrow> 0 | Some a' \<Rightarrow> a')
                 * of_int (acquired_shares c trade_log)
               + of_int (shares_delta row) * nav row)
              / of_int (acquired_shares c trade_log + shares_delta row)))"
  using get_avg_cost_None_iff [of c trade_log]
    get_avg_cost_disposal [of row c trade_log a]
    acquired_shares_disposal [of row c trade_log]
    get_avg_cost_acquisition [of row c trade_log]
  by blast

text \<open>The scripted sequence of the specification: buy 1 at 10 and buy 1 at 12 give the
  average cost 11; selling 1 leaves the average cost 11 with 1 share held.\<close>

theorem get_avg_cost_running_average_witness:
  "get_avg_cost ''F''
     [trade ''2025-01-02'' ''F'' ''buy'' 10 1, trade ''2025-02-03'' ''F'' ''buy'' 12 1] = Some 11 \<and>
   get_avg_cost ''F''
     ([trade ''2025-01-02'' ''F'' ''buy'' 10 1, trade ''2025-02-03'' ''F'' ''buy'' 12 1]
        @ [trade ''2025-03-04'' ''F'' ''sell'' 13 (- 1)]) = Some 11 \<and>
   acquired_shares ''F''
     ([trade ''2025-01-02'' ''F'' ''buy'' 10 1, trade ''2025-02-03'' ''F'' ''buy'' 12 1]
        @ [trade ''2025-03-04'' ''F'' ''sell'' 13 (- 1)]) = 1 \<and>
   get_current_shares ''F''
     [trade ''2025-01-02'' ''F'' ''buy'' 10 1, trade ''2025-02-03'' ''F'' ''buy'' 12 1,
      trade ''2025-03-04'' ''F'' ''sell'' 13 (- 1)] = 1"
proof -
  let ?log = "[trade ''2025-01-02'' ''F'' ''buy'' 10 1, trade ''2025-02-03'' ''F'' ''buy'' 12 1]"
  let ?row = "trade ''2025-03-04'' ''F'' ''sell'' 13 (- 1)"
  have avg: "get_avg_cost ''F'' ?log = Some 11"
    by (simp add: get_avg_cost_def avg_cost_step_def trade_def)
  have held: "acquired_shares ''F'' ?log = 2"
    by (simp add: acquired_shares_def avg_cost_step_def trade_def)
  have row: "fund_code ?row = ''F'' \<and> shares_delta ?row = - 1"
    by (simp add: trade_def)
  have cur: "get_current_shares ''F'' (?log @ [?row]) = 1"
    by (simp add: get_current_shares_def trade_def)
  from get_avg_cost_running_average [of "''F''" ?log ?row 11] avg held row cur
  show ?thesis by simp
qed

section \<open>The signal engine, branch by branch\<close>

lemma init_signal_simps:
  "sig_fund_code (init_signal f) = code f" "signal_type (init_signal f) = []" "can_execute (init_signal f) = False"
  "block_reasons (init_signal f) = []" "ma250 (init_signal f) = None" "deviation_pct (init_signal f) = None"
  by (simp_all add: init_signal_def new_signal_def)

lemma fund_signal_init:
  "fund_signal w st trade_log f =
     (if volatility f = ''low'' then Inr (low_branch w trade_log f (init_signal f))
      else timing_branch w st trade_log f (init_signal f))"
  by (simp add: fund_signal_def)

lemma low_branch_fields:
  "signal_type (low_branch w trade_log f sg) =
     (if get_current_shares (code f) trade_log < max_shares f then ''hold_buy'' else ''none'')"
  "can_execute (low_branch w trade_log f sg) =
     (if get_current_shares (code f) trade_log < max_shares f then True else can_execute sg)"
  "reason (low_branch w trade_log f sg) =
     (if get_current_shares (code f) trade_log < max_shares f
      then LowTierBuy (get_current_shares (code f) trade_log) (max_shares f)
      else LowTierFull (get_current_shares (code f) trade_log) (max_shares f))"
  "ma250 (low_branch w trade_log f sg) = ma250 sg"
  "deviation_pct (low_branch w trade_log f sg) = deviation_pct sg"
  "sig_fund_code (low_branch w trade_log f sg) = sig_fund_code sg"
  "block_reasons (low_branch w trade_log f sg) = block_reasons sg"
  "held_shares (low_branch w trade_log f sg) = get_current_shares (code f) trade_log"
  by (simp_all add: low_branch_def Let_def split: option.splits prod.splits)



lemma sell_branch_result:
  assumes "sell_branch w st trade_log c dev sell_th sg = Inr sg'"
  shows "(signal_type sg' = ''sell'' \<or> signal_type sg' = ''extra_sell'') \<and>
         can_execute sg' = (block_reasons sg' = []) \<and> sig_fund_code sg' = sig_fund_code sg"
  using assms
  by (auto simp: sell_branch_def Let_def split: sum.splits if_splits)

lemma quota_check_result:
  assumes "quota_check st trade_log c mx dev buy_th sg = Inr (blocks, sg1)"
  shows "sig_fund_code sg1 = sig_fund_code sg \<and>
         ((signal_type sg1 = ''buy'' \<and> blocks = [] \<and> held_shares sg < mx) \<or>
          (signal_type sg1 = ''extra_buy'' \<and> blocks = [] \<and> mx \<le> held_shares sg \<and>
             \<not> has_used_extra c trade_log) \<or>
          (sg1 = sg \<and> blocks \<noteq> [] \<and> mx \<le> held_shares sg))"
  using assms
  by (auto simp: quota_check_def Let_def split: if_splits option.splits)

lemma buy_cooldown_check_unset:
  assumes "signal_type sg \<noteq> ''buy''" "signal_type sg \<noteq> ''extra_buy''"
  shows "buy_cooldown_check w st trade_log c dev buy_th blocks sg = Inr blocks"
  using assms by (simp add: buy_cooldown_check_def)

lemma buy_cooldown_check_eq:
  assumes "signal_type sg = ''buy'' \<or> signal_type sg = ''extra_buy''"
    and "days_since w (recent_buy c trade_log) = Inr gap"
  shows "buy_cooldown_check w st trade_log c dev buy_th blocks sg =
           Inr (blocks @ (case gap of
                            None \<Rightarrow> []
                          | Some n \<Rightarrow>
                              if n < buy_cooldown_days st \<and>
                                 \<not> dev \<le> buy_th - cooldown_override_extra_pct st
                              then [BuyCooldown n (buy_cooldown_days st)] else []))"
  using assms by (auto simp: buy_cooldown_check_def split: option.splits)

lemma buy_cooldown_check_prefix:
  assumes "buy_cooldown_check w st trade_log c dev buy_th blocks sg = Inr blocks'"
  shows "blocks' = blocks \<or> (\<exists>n d. blocks' = blocks @ [BuyCooldown n d])"
  using assms by (auto simp: buy_cooldown_check_def split: if_splits sum.splits option.splits)

lemma buy_branch_result:
  assumes "buy_branch w st trade_log c mx dev buy_th sg = Inr sg'" and "signal_type sg = []"
  shows "sig_fund_code sg' = sig_fund_code sg \<and>
         (signal_type sg' = ''buy'' \<or> signal_type sg' = ''extra_buy'' \<or> signal_type sg' = []) \<and>
         can_execute sg' = (block_reasons sg' = [] \<and> signal_type sg' \<noteq> []) \<and>
         (signal_type sg' = [] \<longrightarrow> block_reasons sg' \<noteq> [] \<and> mx \<le> held_shares sg) \<and>
         (signal_type sg' = ''extra_buy'' \<longrightarrow> \<not> has_used_extra c trade_log)"
proof -
  from assms(1) obtain blocks0 sg1 blocks where
    q: "quota_check st trade_log c mx dev buy_th sg = Inr (blocks0, sg1)" and
    cd: "buy_cooldown_check w st trade_log c dev buy_th blocks0 sg1 = Inr blocks" and
    sg': "sg' = sg1\<lparr>block_reasons := blocks,
                  can_execute := (length blocks = 0 \<and>
                    (signal_type sg1 = ''buy'' \<or> signal_type sg1 = ''extra_buy''))\<rparr>"
    by (auto simp: buy_branch_def split: sum.splits prod.splits)
  from quota_check_result [OF q] buy_cooldown_check_prefix [OF cd] assms(2) sg'
  show ?thesis by auto
qed


lemma timing_branch_short:
  assumes "length (fetch_nav_history w (code f) (ma_days st + 30)) < 60"
  shows "timing_branch w st trade_log f sg =
           Inr (sg\<lparr>signal_type := ''none'',
                   reason := HistoryTooShort
                     (length (fetch_nav_history w (code f) (ma_days st + 30)))\<rparr>)"
  using assms by (simp add: timing_branch_def Let_def)

lemma timing_branch_long:
  assumes "60 \<le> length (fetch_nav_history w (code f) (ma_days st + 30))"
    and "moving_average (ma_days st)
           (map snd (fetch_nav_history w (code f) (ma_days st + 30))) = Inr ma"
    and "deviation (snd (last (fetch_nav_history w (code f) (ma_days st + 30)))) ma = Inr dev"
    and "tier_thresholds st (volatility f) = Inr th"
  shows "\<exists>sg2.
           current_nav sg2 = snd (last (fetch_nav_history w (code f) (ma_days st + 30))) \<and>
           held_shares sg2 = get_current_shares (code f) trade_log \<and>
           extra_shares sg2 = get_extra_shares (code f) trade_log \<and>
           ma250 sg2 = Some ma \<and> deviation_pct sg2 = Some dev \<and>
           signal_type sg2 = signal_type sg \<and> can_execute sg2 = can_execute sg \<and>
           block_reasons sg2 = block_reasons sg \<and> sig_fund_code sg2 = sig_fund_code sg \<and>
           timing_branch w st trade_log f sg =
             (if sell_pct th \<le> dev
              then sell_branch w st trade_log (code f) dev (sell_pct th) sg2
              else if dev \<le> buy_pct th
              then buy_branch w st trade_log (code f) (max_shares f) dev (buy_pct th) sg2
              else Inr (sg2\<lparr>signal_type := ''none'',
                            reason := NotTriggered dev (buy_pct th) (sell_pct th)\<rparr>))"
proof -
  let ?h = "fetch_nav_history w (code f) (ma_days st + 30)"
  let ?ac = "get_avg_cost (code f) trade_log"
  let ?sg2 = "sg\<lparr>current_nav := snd (last ?h), current_date := fst (last ?h),
                  ma250 := Some ma, deviation_pct := Some dev,
                  held_shares := get_current_shares (code f) trade_log,
                  extra_shares := get_extra_shares (code f) trade_log,
                  avg_cost := ?ac,
                  pnl_pct := (case ?ac of
                                None \<Rightarrow> None
                              | Some a \<Rightarrow> if a \<noteq> 0 \<and> a > 0
                                          then Some ((current_nav (sg\<lparr>current_nav := snd (last ?h), current_date := fst (last ?h)\<rparr>) - a) / a * 100) else None)\<rparr>"
  show ?thesis
    using assms
    by (intro exI [of _ ?sg2]) (simp add: timing_branch_def Let_def)
qed

lemma timing_branch_result:
  assumes "timing_branch w st trade_log f sg = Inr sg'"
  shows "(length (fetch_nav_history w (code f) (ma_days st + 30)) < 60 \<and>
          sg' = sg\<lparr>signal_type := ''none'',
                   reason := HistoryTooShort
                     (length (fetch_nav_history w (code f) (ma_days st + 30)))\<rparr>) \<or>
         (\<exists>ma dev th.
            60 \<le> length (fetch_nav_history w (code f) (ma_days st + 30)) \<and>
            moving_average (ma_days st)
              (map snd (fetch_nav_history w (code f) (ma_days st + 30))) = Inr ma \<and>
            deviation (snd (last (fetch_nav_history w (code f) (ma_days st + 30)))) ma = Inr dev \<and>
            tier_thresholds st (volatility f) = Inr th)"
  using assms
  by (auto simp: timing_branch_def Let_def split: if_splits sum.splits)

section \<open>Every signal of a run\<close>

lemma fund_signal_result:
  assumes "fund_signal w st trade_log f = Inr sg"
  shows "sig_fund_code sg = code f \<and>
         (signal_type sg = ''buy'' \<or> signal_type sg = ''sell'' \<or> signal_type sg = ''extra_buy'' \<or>
          signal_type sg = ''extra_sell'' \<or> signal_type sg = ''hold_buy'' \<or>
          signal_type sg = ''none'' \<or> signal_type sg = []) \<and>
         (can_execute sg \<longrightarrow> signal_type sg \<noteq> ''none'' \<and> signal_type sg \<noteq> []) \<and>
         (signal_type sg = [] \<longrightarrow>
            block_reasons sg \<noteq> [] \<and> volatility f \<noteq> ''low'' \<and>
            max_shares f \<le> get_current_shares (code f) trade_log) \<and>
         (signal_type sg = ''extra_buy'' \<longrightarrow> \<not> has_used_extra (code f) trade_log)"
proof (cases "volatility f = ''low''")
  case True
  with assms have "sg = low_branch w trade_log f (init_signal f)"
    by (simp add: fund_signal_init)
  then show ?thesis
    by (simp add: low_branch_fields init_signal_simps)
next
  case False
  with assms have tb: "timing_branch w st trade_log f (init_signal f) = Inr sg"
    by (simp add: fund_signal_init)
  let ?h = "fetch_nav_history w (code f) (ma_days st + 30)"
  from timing_branch_result [OF tb] show ?thesis
  proof (elim disjE conjE exE)
    assume "sg = init_signal f\<lparr>signal_type := ''none'', reason := HistoryTooShort (length ?h)\<rparr>"
    then show ?thesis by (simp add: init_signal_simps)
  next
    fix ma dev th
    assume long: "60 \<le> length ?h"
      and ma: "moving_average (ma_days st) (map snd ?h) = Inr ma"
      and dev: "deviation (snd (last ?h)) ma = Inr dev"
      and th: "tier_thresholds st (volatility f) = Inr th"
    from timing_branch_long [OF long ma dev th, of trade_log "init_signal f"] tb
    obtain sg2 where
      held: "held_shares sg2 = get_current_shares (code f) trade_log" and
      ty: "signal_type sg2 = []" and ce: "can_execute sg2 = False" and
      cd: "sig_fund_code sg2 = code f" and
      eq: "Inr sg =
             (if sell_pct th \<le> dev
              then sell_branch w st trade_log (code f) dev (sell_pct th) sg2
              else if dev \<le> buy_pct th
              then buy_branch w st trade_log (code f) (max_shares f) dev (buy_pct th) sg2
              else Inr (sg2\<lparr>signal_type := ''none'',
                            reason := NotTriggered dev (buy_pct th) (sell_pct th)\<rparr>))"
      by (auto simp: init_signal_simps)
    consider (sell) "sell_pct th \<le> dev"
      | (buy) "\<not> sell_pct th \<le> dev" "dev \<le> buy_pct th"
      | (none) "\<not> sell_pct th \<le> dev" "\<not> dev \<le> buy_pct th"
      by blast
    then show ?thesis
    proof cases
      case sell
      with eq have "sell_branch w st trade_log (code f) dev (sell_pct th) sg2 = Inr sg"
        by simp
      from sell_branch_result [OF this] cd show ?thesis by auto
    next
      case buy
      with eq have
        "buy_branch w st trade_log (code f) (max_shares f) dev (buy_pct th) sg2 = Inr sg"
        by simp
      from buy_branch_result [OF this ty] cd held False show ?thesis by auto
    next
      case none
      with eq have "sg = sg2\<lparr>signal_type := ''none'',
                            reason := NotTriggered dev (buy_pct th) (sell_pct th)\<rparr>"
        by simp
      with cd ce show ?thesis by simp
    qed
  qed
qed

lemma compute_loop_result:
  assumes "compute_loop w st trade_log fs acc = Inr signals"
  shows "\<exists>sgs. signals = acc @ sgs \<and>
           list_all2 (\<lambda>f sg. fund_signal w st trade_log f = Inr sg) fs sgs"
  using assms
proof (induction fs arbitrary: acc)
  case Nil
  then show ?case by simp
next
  case (Cons f fs)
  from Cons.prems obtain sg where
    sg: "fund_signal w st trade_log f = Inr sg" and
    rest: "compute_loop w st trade_log fs (acc @ [sg]) = Inr signals"
    by (auto split: sum.splits)
  from Cons.IH [OF rest] sg show ?case by auto
qed

lemma compute_signals_result:
  assumes "compute_signals w cfg trade_log = Inr signals"
  shows "list_all2 (\<lambda>f sg. fund_signal w (strategy cfg) trade_log f = Inr sg) (funds cfg) signals"
  using compute_loop_result [of w "strategy cfg" trade_log "funds cfg" "[]" signals] assms
  by (simp add: compute_signals_def)

lemma compute_signals_member:
  assumes "compute_signals w cfg trade_log = Inr signals" and "sg \<in> set signals"
  shows "\<exists>f \<in> set (funds cfg). fund_signal w (strategy cfg) trade_log f = Inr sg"
proof -
  from assms(2) obtain i where i: "i < length signals" "signals ! i = sg"
    by (auto simp: in_set_conv_nth)
  from compute_signals_result [OF assms(1)] i
  have "length (funds cfg) = length signals"
    and "fund_signal w (strategy cfg) trade_log (funds cfg ! i) = Inr sg"
    by (auto simp: list_all2_conv_all_nth)
  with i show ?thesis by (auto intro!: bexI [of _ "funds cfg ! i"])
qed

section \<open>The branches under their triggers\<close>

lemma fund_signal_timing:
  assumes "volatility f \<noteq> ''low''"
    and "60 \<le> length (fetch_nav_history w (code f) (ma_days st + 30))"
    and "moving_average (ma_days st)
           (map snd (fetch_nav_history w (code f) (ma_days st + 30))) = Inr ma"
    and "deviation (snd (last (fetch_nav_history w (code f) (ma_days st + 30)))) ma = Inr dev"
    and "tier_thresholds st (volatility f) = Inr th"
  obtains sg2 where
    "current_nav sg2 = snd (last (fetch_nav_history w (code f) (ma_days st + 30)))"
    "held_shares sg2 = get_current_shares (code f) trade_log"
    "extra_shares sg2 = get_extra_shares (code f) trade_log"
    "ma250 sg2 = Some ma" "deviation_pct sg2 = Some dev"
    "signal_type sg2 = []" "can_execute sg2 = False" "block_reasons sg2 = []"
    "sig_fund_code sg2 = code f"
    "fund_signal w st trade_log f =
       (if sell_pct th \<le> dev
        then sell_branch w st trade_log (code f) dev (sell_pct th) sg2
        else if dev \<le> buy_pct th
        then buy_branch w st trade_log (code f) (max_shares f) dev (buy_pct th) sg2
        else Inr (sg2\<lparr>signal_type := ''none'',
                      reason := NotTriggered dev (buy_pct th) (sell_pct th)\<rparr>))"
  using timing_branch_long [OF assms(2-5), of trade_log "init_signal f"] assms(1)
  by (auto simp: fund_signal_init init_signal_simps)

lemma quota_check_buy:
  assumes "held_shares sg < mx"
  shows "quota_check st trade_log c mx dev buy_th sg =
           Inr ([], sg\<lparr>signal_type := ''buy'', reason := BuyTriggered dev buy_th\<rparr>)"
  using assms by (simp add: quota_check_def)

lemma quota_check_extra_used:
  assumes "mx \<le> held_shares sg" "has_used_extra c trade_log"
  shows "quota_check st trade_log c mx dev buy_th sg =
           Inr ([QuotaFullExtraUsed (held_shares sg) mx], sg)"
  using assms by (simp add: quota_check_def)

lemma quota_check_no_last_buy:
  assumes "mx \<le> held_shares sg" "\<not> has_used_extra c trade_log"
    "get_last_buy_nav c trade_log = None"
  shows "quota_check st trade_log c mx dev buy_th sg =
           Inr ([QuotaFullNoLastBuy (held_shares sg) mx], sg)"
  using assms by (simp add: quota_check_def)

lemma quota_check_drop:
  assumes "mx \<le> held_shares sg" "\<not> has_used_extra c trade_log"
    "get_last_buy_nav c trade_log = Some lb" "lb \<noteq> 0"
  shows "quota_check st trade_log c mx dev buy_th sg =
           (if (current_nav sg - lb) / lb * 100 > extra_drop_pct st
            then Inr ([QuotaFullDropShort (held_shares sg) mx ((current_nav sg - lb) / lb * 100)
                         (extra_drop_pct st)], sg)
            else Inr ([], sg\<lparr>signal_type := ''extra_buy'',
                              reason := ExtraBuyTriggered dev lb
                                          ((current_nav sg - lb) / lb * 100)\<rparr>))"
  using assms by (simp add: quota_check_def Let_def)

lemma buy_branch_blocked:
  assumes "quota_check st trade_log c mx dev buy_th sg = Inr (blocks, sg)"
    and "signal_type sg = []"
  shows "buy_branch w st trade_log c mx dev buy_th sg =
           Inr (sg\<lparr>block_reasons := blocks, can_execute := False\<rparr>)"
  using assms by (simp add: buy_branch_def buy_cooldown_check_unset)

lemma buy_branch_typed:
  assumes "quota_check st trade_log c mx dev buy_th sg = Inr ([], sg1)"
    and "signal_type sg1 = ''buy'' \<or> signal_type sg1 = ''extra_buy''"
    and "days_since w (recent_buy c trade_log) = Inr gap"
  shows "\<exists>sg'. buy_branch w st trade_log c mx dev buy_th sg = Inr sg' \<and>
           signal_type sg' = signal_type sg1 \<and>
           block_reasons sg' =
             (case gap of
                None \<Rightarrow> []
              | Some n \<Rightarrow>
                  if n < buy_cooldown_days st \<and> \<not> dev \<le> buy_th - cooldown_override_extra_pct st
                  then [BuyCooldown n (buy_cooldown_days st)] else []) \<and>
           can_execute sg' = (block_reasons sg' = [])"
  using assms(2)
  by (auto simp: buy_branch_def assms(1) buy_cooldown_check_eq [OF assms(2,3)])


lemma has_used_extra_iff:
  "has_used_extra c trade_log =
     (\<exists>row \<in> set trade_log. fund_code row = c \<and> action row = ''extra_buy'')"
  by (induction trade_log) auto

lemma recent_of_simps:
  "recent_of None None = None"
  "recent_of (Some a) None = (if a = [] then None else Some a)"
  "recent_of None (Some b) = (if b = [] then None else Some b)"
  "recent_of (Some a) (Some b) =
     (if a = [] then (if b = [] then None else Some b)
      else if b = [] then Some a else Some (max a b))"
  by (simp_all add: recent_of_def List.map_filter_def)

text \<open>When the parser respects the order of the two date strings, the anchor is the later
  of the two dates.\<close>

lemma days_since_recent_latest:
  assumes "strptime w a = Some i" "strptime w b = Some j" "a \<noteq> []" "b \<noteq> []"
    and "a \<le> b \<longleftrightarrow> i \<le> j"
  shows "days_since w (recent_of (Some a) (Some b)) = Inr (Some (today w - max i j))"
  using assms by (auto simp: recent_of_simps days_since_def max_def)

section \<open>Facts about the example data\<close>

lemma example_fetch [simp]: "fetch_nav_history (example_world h) c d = h"
  and example_today [simp]: "today (example_world h) = 739263"
  and example_strptime [simp]: "strptime (example_world h) = example_calendar"
  by (simp_all add: example_world_def)

lemma example_fund_simps [simp]:
  "code (example_fund vol mx) = ''X''" "volatility (example_fund vol mx) = vol"
  "max_shares (example_fund vol mx) = mx"
  by (simp_all add: example_fund_def)

lemma example_strategy_simps [simp]:
  "ma_days example_strategy = 250" "buy_cooldown_days example_strategy = 30"
  "sell_cooldown_days example_strategy = 30"
  "cooldown_override_extra_pct example_strategy = 5" "extra_drop_pct example_strategy = 8"
  by (simp_all add: example_strategy_def)

lemma example_thresholds:
  "tier_thresholds example_strategy ''mid'' = Inr \<lparr>buy_pct = - 15, sell_pct = 20\<rparr>"
  by (simp add: tier_thresholds_def example_strategy_def)

lemma example_history_length: "length (example_history b p q) = 60"
  by (simp add: example_history_def)

lemma example_history_last: "last (example_history b p q) = (''2025-01-11'', q)"
  by (simp add: example_history_def)

lemma example_moving_average:
  "moving_average 250 (map snd (example_history b p q)) = Inr ((58 * b + p + q) / 60)"
  by (simp add: moving_average_def example_history_def slice_from_def sum_list_replicate)

lemmas example_ledger_simps =
  recent_sell_def recent_buy_def get_last_trade_date_def get_last_buy_nav_def recent_of_simps
  days_since_def example_calendar_def trade_def get_current_shares_def get_extra_shares_def
  has_used_extra_iff

lemma find_replicate:
  "find P (replicate n x) = (if n = 0 \<or> \<not> P x then None else Some x)"
  by (induction n) auto

lemma full_quota_ledger_facts:
  "get_current_shares ''X'' full_quota_ledger = 10"
  "\<not> has_used_extra ''X'' full_quota_ledger"
  "get_last_buy_nav ''X'' full_quota_ledger = Some 1"
  "days_since (example_world h) (recent_buy ''X'' full_quota_ledger) = Inr (Some 376)"
  by (simp_all add: full_quota_ledger_def get_current_shares_all_actions filter_replicate
      sum_list_replicate has_used_extra_iff get_last_buy_nav_def recent_buy_def
      get_last_trade_date_def recent_of_simps days_since_def example_calendar_def trade_def
      find_replicate)

section \<open>The claims about one fund\<close>

text \<open>
  C8. A fund of tier \<^verbatim>\<open>low\<close> always gets a signal: \<^verbatim>\<open>hold_buy\<close> with
  \<^verbatim>\<open>can_execute\<close> when \<^verbatim>\<open>get_current_shares\<close> is below \<^verbatim>\<open>max_shares\<close>, and \<^verbatim>\<open>none\<close>
  without \<^verbatim>\<open>can_execute\<close> otherwise; no moving average or deviation is set; and under any
  other day, prices and strategy the type, the verdict, the reason, the blocks and the held
  shares are the same.
\<close>

theorem low_tier_hold_buy_or_none:
  assumes "volatility f = ''low''"
  shows "\<exists>sg. fund_signal w st trade_log f = Inr sg \<and>
           (get_current_shares (code f) trade_log < max_shares f \<longrightarrow>
              signal_type sg = ''hold_buy'' \<and> can_execute sg) \<and>
           (\<not> get_current_shares (code f) trade_log < max_shares f \<longrightarrow>
              signal_type sg = ''none'' \<and> \<not> can_execute sg) \<and>
           ma250 sg = None \<and> deviation_pct sg = None \<and>
           (\<forall>w' st'. \<exists>sg'. fund_signal w' st' trade_log f = Inr sg' \<and>
              signal_type sg' = signal_type sg \<and> can_execute sg' = can_execute sg \<and>
              reason sg' = reason sg \<and> block_reasons sg' = block_reasons sg \<and>
              held_shares sg' = held_shares sg)"
  using assms by (simp add: fund_signal_init low_branch_fields init_signal_simps)

theorem low_tier_hold_buy_or_none_witness:
  "volatility (example_fund ''low'' 2) = ''low'' \<and>
   get_current_shares ''X'' [trade ''2025-01-02'' ''X'' ''buy'' 1 1] = 1 \<and>
   (\<exists>sg. fund_signal (example_world []) example_strategy [trade ''2025-01-02'' ''X'' ''buy'' 1 1]
            (example_fund ''low'' 2) = Inr sg \<and>
          signal_type sg = ''hold_buy'' \<and> can_execute sg \<and> ma250 sg = None \<and>
          deviation_pct sg = None) \<and>
   get_current_shares ''X''
     [trade ''2025-01-02'' ''X'' ''buy'' 1 1, trade ''2025-01-02'' ''X'' ''buy'' 1 1] = 2 \<and>
   (\<exists>sg. fund_signal (example_world [])  example_strategy
            [trade ''2025-01-02'' ''X'' ''buy'' 1 1, trade ''2025-01-02'' ''X'' ''buy'' 1 1]
            (example_fund ''low'' 2) = Inr sg \<and>
          signal_type sg = ''none'' \<and> \<not> can_execute sg)"
proof -
  have low: "volatility (example_fund ''low'' 2) = ''low''" by simp
  have one: "get_current_shares ''X'' [trade ''2025-01-02'' ''X'' ''buy'' 1 1] = 1"
    by (simp add: get_current_shares_def trade_def)
  have two: "get_current_shares ''X''
     [trade ''2025-01-02'' ''X'' ''buy'' 1 1, trade ''2025-01-02'' ''X'' ''buy'' 1 1] = 2"
    by (simp add: get_current_shares_def trade_def)
  from low_tier_hold_buy_or_none [OF low, of "example_world []" example_strategy
      "[trade ''2025-01-02'' ''X'' ''buy'' 1 1]"]
    low_tier_hold_buy_or_none [OF low, of "example_world []" example_strategy
      "[trade ''2025-01-02'' ''X'' ''buy'' 1 1, trade ''2025-01-02'' ''X'' ''buy'' 1 1]"]
    one two
  show ?thesis by simp blast
qed

text \<open>
  C9. A fund of another tier whose fetched history has fewer than 60 points gets the
  signal \<^verbatim>\<open>none\<close> without \<^verbatim>\<open>can_execute\<close>; the reason carries the number of points,
  and no moving average or deviation is set.
\<close>

theorem short_history_gives_none:
  assumes "volatility f \<noteq> ''low''"
    and "length (fetch_nav_history w (code f) (ma_days st + 30)) < 60"
  shows "\<exists>sg. fund_signal w st trade_log f = Inr sg \<and>
           signal_type sg = ''none'' \<and> \<not> can_execute sg \<and>
           reason sg = HistoryTooShort (length (fetch_nav_history w (code f) (ma_days st + 30))) \<and>
           ma250 sg = None \<and> deviation_pct sg = None"
  using assms by (simp add: fund_signal_init timing_branch_short init_signal_simps)

theorem short_history_gives_none_witness:
  "volatility (example_fund ''mid'' 10) \<noteq> ''low'' \<and>
   length (fetch_nav_history (example_world (replicate 40 (''2024-12-31'', 1)))
            (code (example_fund ''mid'' 10)) (ma_days example_strategy + 30)) = 40 \<and>
   (\<exists>sg. fund_signal (example_world (replicate 40 (''2024-12-31'', 1))) example_strategy []
            (example_fund ''mid'' 10) = Inr sg \<and>
          signal_type sg = ''none'' \<and> \<not> can_execute sg \<and> reason sg = HistoryTooShort 40 \<and>
          ma250 sg = None \<and> deviation_pct sg = None)"
proof -
  let ?w = "example_world (replicate 40 (''2024-12-31'', 1))"
  have h1: "volatility (example_fund ''mid'' 10) \<noteq> ''low''" by simp
  have h2: "length (fetch_nav_history ?w (code (example_fund ''mid'' 10))
                      (ma_days example_strategy + 30)) < 60" by simp
  from short_history_gives_none [OF h1 h2, of "[]"] show ?thesis by simp
qed



text \<open>
  C3. In the buy branch with the regular quota full, the extra buy unused and a last buy
  nav that is not 0, the signal is \<^verbatim>\<open>extra_buy\<close> exactly when
  \<open>drop_from_last = (current_nav - last_buy_nav) / last_buy_nav * 100\<close> is at most
  \<^verbatim>\<open>extra_drop_pct\<close>. Then the only possible block is the buy cooldown and \<^verbatim>\<open>can_execute\<close>
  holds exactly when there is none; otherwise the type stays unset, \<^verbatim>\<open>can_execute\<close> is
  false and the one block carries the drop and the threshold.
\<close>

theorem extra_buy_iff_drop:
  assumes "volatility f \<noteq> ''low''"
    and "60 \<le> length (fetch_nav_history w (code f) (ma_days st + 30))"
    and "moving_average (ma_days st)
           (map snd (fetch_nav_history w (code f) (ma_days st + 30))) = Inr ma"
    and "deviation (snd (last (fetch_nav_history w (code f) (ma_days st + 30)))) ma = Inr dev"
    and "tier_thresholds st (volatility f) = Inr th"
    and "\<not> sell_pct th \<le> dev" and "dev \<le> buy_pct th"
    and "max_shares f \<le> get_current_shares (code f) trade_log"
    and "\<not> has_used_extra (code f) trade_log"
    and "get_last_buy_nav (code f) trade_log = Some last_buy_nav" and "last_buy_nav \<noteq> 0"
    and "days_since w (recent_buy (code f) trade_log) = Inr gap"
    and "drop_from_last =
           (snd (last (fetch_nav_history w (code f) (ma_days st + 30))) - last_buy_nav)
             / last_buy_nav * 100"
  shows "\<exists>sg. fund_signal w st trade_log f = Inr sg \<and>
           (signal_type sg = ''extra_buy'' \<longleftrightarrow> drop_from_last \<le> extra_drop_pct st) \<and>
           (drop_from_last \<le> extra_drop_pct st \<longrightarrow>
              block_reasons sg =
                (case gap of
                   None \<Rightarrow> []
                 | Some n \<Rightarrow>
                     if n < buy_cooldown_days st \<and>
                        \<not> dev \<le> buy_pct th - cooldown_override_extra_pct st
                     then [BuyCooldown n (buy_cooldown_days st)] else []) \<and>
              can_execute sg = (block_reasons sg = [])) \<and>
           (\<not> drop_from_last \<le> extra_drop_pct st \<longrightarrow>
              signal_type sg = [] \<and> \<not> can_execute sg \<and>
              block_reasons sg =
                [QuotaFullDropShort (get_current_shares (code f) trade_log) (max_shares f)
                   drop_from_last (extra_drop_pct st)])"
proof -
  from assms(1-5) obtain sg2 where
    cur: "current_nav sg2 = snd (last (fetch_nav_history w (code f) (ma_days st + 30)))" and
    held: "held_shares sg2 = get_current_shares (code f) trade_log" and
    ty: "signal_type sg2 = []" and
    eq: "fund_signal w st trade_log f =
       (if sell_pct th \<le> dev
        then sell_branch w st trade_log (code f) dev (sell_pct th) sg2
        else if dev \<le> buy_pct th
        then buy_branch w st trade_log (code f) (max_shares f) dev (buy_pct th) sg2
        else Inr (sg2\<lparr>signal_type := ''none'',
                      reason := NotTriggered dev (buy_pct th) (sell_pct th)\<rparr>))"
    by (rule fund_signal_timing)
  have fs: "fund_signal w st trade_log f =
              buy_branch w st trade_log (code f) (max_shares f) dev (buy_pct th) sg2"
    using eq assms(6,7) by simp
  have full: "max_shares f \<le> held_shares sg2" using assms(8) held by simp
  note q = quota_check_drop [OF full assms(9,10,11), of st dev "buy_pct th"]
  show ?thesis
  proof (cases "drop_from_last \<le> extra_drop_pct st")
    case True
    let ?sg1 = "sg2\<lparr>signal_type := ''extra_buy'',
                    reason := ExtraBuyTriggered dev last_buy_nav
                      ((current_nav sg2 - last_buy_nav) / last_buy_nav * 100)\<rparr>"
    have q1: "quota_check st trade_log (code f) (max_shares f) dev (buy_pct th) sg2 =
                Inr ([], ?sg1)"
      using q True assms(13) cur by simp
    have "signal_type ?sg1 = ''buy'' \<or> signal_type ?sg1 = ''extra_buy''" by simp
    from buy_branch_typed [OF q1 this assms(12)] fs True show ?thesis by auto
  next
    case False
    have q1: "quota_check st trade_log (code f) (max_shares f) dev (buy_pct th) sg2 =
                Inr ([QuotaFullDropShort (held_shares sg2) (max_shares f) drop_from_last
                        (extra_drop_pct st)], sg2)"
      using q False assms(13) cur by simp
    from buy_branch_blocked [OF q1 ty, of w] fs False held ty show ?thesis by simp
  qed
qed

theorem extra_buy_iff_drop_witness:
  "get_current_shares ''X'' full_quota_ledger = 10 \<and>
   get_last_buy_nav ''X'' full_quota_ledger = Some 1 \<and>
   snd (last (example_history 1.125 1.35 0.9)) = 0.9 \<and>
   (0.9 - 1) / 1 * 100 \<le> extra_drop_pct example_strategy \<and>
   (\<exists>sg. fund_signal (example_world (example_history 1.125 1.35 0.9)) example_strategy
            full_quota_ledger (example_fund ''mid'' 10) = Inr sg \<and>
          signal_type sg = ''extra_buy'' \<and> block_reasons sg = [] \<and> can_execute sg)"
proof -
  let ?f = "example_fund ''mid'' 10"
  let ?w = "example_world (example_history 1.125 1.35 0.9)"
  let ?th = "\<lparr>buy_pct = - 15, sell_pct = 20\<rparr>"
  have vol: "volatility ?f \<noteq> ''low''" by simp
  have th: "tier_thresholds example_strategy (volatility ?f) = Inr ?th"
    by (simp add: example_thresholds)
  have len: "60 \<le> length (fetch_nav_history ?w (code ?f) (ma_days example_strategy + 30))"
    by (simp add: example_history_length)
  have ma: "moving_average (ma_days example_strategy)
              (map snd (fetch_nav_history ?w (code ?f) (ma_days example_strategy + 30))) =
              Inr 1.125"
    by (simp add: example_moving_average)
  have dev: "deviation (snd (last (fetch_nav_history ?w (code ?f)
                 (ma_days example_strategy + 30)))) 1.125 = Inr (- 20)"
    by (simp add: example_history_last deviation_def)
  have trig: "\<not> sell_pct ?th \<le> (- 20 :: real)" "(- 20 :: real) \<le> buy_pct ?th" by simp_all
  have full: "max_shares ?f \<le> get_current_shares (code ?f) full_quota_ledger"
    and unused: "\<not> has_used_extra (code ?f) full_quota_ledger"
    and lb: "get_last_buy_nav (code ?f) full_quota_ledger = Some 1"
    and gap: "days_since ?w (recent_buy (code ?f) full_quota_ledger) = Inr (Some 376)"
    by (simp_all add: full_quota_ledger_facts)
  have nz: "(1::real) \<noteq> 0" by simp
  have drop: "(- 10 :: real) =
     (snd (last (fetch_nav_history ?w (code ?f) (ma_days example_strategy + 30))) - 1) / 1 * 100"
    by (simp add: example_history_last)
  have accepted: "\<exists>sg. fund_signal ?w example_strategy full_quota_ledger ?f = Inr sg \<and>
          signal_type sg = ''extra_buy'' \<and> block_reasons sg = [] \<and> can_execute sg"
    using extra_buy_iff_drop [OF vol len ma dev th trig full unused lb nz gap drop] by clarsimp
  from accepted full_quota_ledger_facts(1,3)
  show ?thesis by (simp add: example_history_last)
qed



section \<open>The executor and whole runs\<close>

lemma execute_one_typed:
  assumes "can_execute sg" "executable_type sg"
  shows "execute_one dry_run sg (executed, trade_log) =
           (executed @ [sg], if dry_run then trade_log else trade_log @ [appended_row sg])"
  using assms
  by (auto simp: execute_one_def executable_type_def appended_row_def append_trade_log_def)

lemma execute_one_skip:
  assumes "\<not> can_execute sg"
  shows "execute_one dry_run sg (executed, trade_log) = (executed, trade_log)"
  using assms by (simp add: execute_one_def)

lemma execute_loop_typed:
  assumes "\<forall>sg \<in> set sgs. can_execute sg \<longrightarrow> executable_type sg"
  shows "execute_loop dry_run sgs (executed, trade_log) =
           (executed @ filter can_execute sgs,
            if dry_run then trade_log
            else trade_log @ map appended_row (filter can_execute sgs))"
  using assms
proof (induction sgs arbitrary: executed trade_log)
  case Nil
  then show ?case by simp
next
  case (Cons sg sgs)
  show ?case
  proof (cases "can_execute sg")
    case True
    with Cons.prems have "executable_type sg" by simp
    from execute_one_typed [OF True this] Cons.IH Cons.prems True show ?thesis by simp
  next
    case False
    from execute_one_skip [OF False] Cons.IH Cons.prems False show ?thesis by simp
  qed
qed

lemma compute_signals_executable:
  assumes "compute_signals w cfg trade_log = Inr signals" and "sg \<in> set signals"
    and "can_execute sg"
  shows "executable_type sg"
proof -
  from compute_signals_member [OF assms(1,2)] obtain f where
    "fund_signal w (strategy cfg) trade_log f = Inr sg" by blast
  from fund_signal_result [OF this] assms(3) show ?thesis
    by (auto simp: executable_type_def)
qed

lemma fund_signal_buy_branch:
  assumes "volatility f \<noteq> ''low''"
    and "60 \<le> length (fetch_nav_history w (code f) (ma_days st + 30))"
    and "moving_average (ma_days st)
           (map snd (fetch_nav_history w (code f) (ma_days st + 30))) = Inr ma"
    and "deviation (snd (last (fetch_nav_history w (code f) (ma_days st + 30)))) ma = Inr dev"
    and "tier_thresholds st (volatility f) = Inr th"
    and "\<not> sell_pct th \<le> dev" and "dev \<le> buy_pct th"
  obtains sg2 where
    "current_nav sg2 = snd (last (fetch_nav_history w (code f) (ma_days st + 30)))"
    "held_shares sg2 = get_current_shares (code f) trade_log"
    "signal_type sg2 = []" "sig_fund_code sg2 = code f"
    "fund_signal w st trade_log f =
       buy_branch w st trade_log (code f) (max_shares f) dev (buy_pct th) sg2"
proof -
  from assms(1-5) obtain sg2 where
    "current_nav sg2 = snd (last (fetch_nav_history w (code f) (ma_days st + 30)))"
    "held_shares sg2 = get_current_shares (code f) trade_log"
    "signal_type sg2 = []" "sig_fund_code sg2 = code f"
    "fund_signal w st trade_log f =
       (if sell_pct th \<le> dev
        then sell_branch w st trade_log (code f) dev (sell_pct th) sg2
        else if dev \<le> buy_pct th
        then buy_branch w st trade_log (code f) (max_shares f) dev (buy_pct th) sg2
        else Inr (sg2\<lparr>signal_type := ''none'',
                      reason := NotTriggered dev (buy_pct th) (sell_pct th)\<rparr>))"
    by (rule fund_signal_timing)
  with assms(6,7) that show thesis by simp
qed

lemma buy_branch_code:
  assumes "buy_branch w st trade_log c mx dev buy_th sg = Inr sg'"
  shows "sig_fund_code sg' = sig_fund_code sg"
proof -
  from assms obtain blocks0 sg1 blocks where
    q: "quota_check st trade_log c mx dev buy_th sg = Inr (blocks0, sg1)" and
    sg': "sg' = sg1\<lparr>block_reasons := blocks,
                  can_execute := (length blocks = 0 \<and>
                    (signal_type sg1 = ''buy'' \<or> signal_type sg1 = ''extra_buy''))\<rparr>"
    by (auto simp: buy_branch_def split: sum.splits prod.splits)
  from quota_check_result [OF q] sg' show ?thesis by simp
qed

text \<open>Two runs over the example data: a plain buy and a refused extra buy.\<close>

lemma example_buy_signal:
  "\<exists>sg. fund_signal (example_world (example_history 100 121 79)) example_strategy
          [trade ''2024-01-02'' ''X'' ''buy'' 100 1] (example_fund ''mid'' 10) = Inr sg \<and>
        signal_type sg = ''buy'' \<and> can_execute sg \<and> sig_fund_code sg = ''X''"
proof -
  let ?f = "example_fund ''mid'' 10"
  let ?w = "example_world (example_history 100 121 79)"
  let ?log = "[trade ''2024-01-02'' ''X'' ''buy'' 100 1]"
  let ?th = "\<lparr>buy_pct = - 15, sell_pct = 20\<rparr>"
  have vol: "volatility ?f \<noteq> ''low''" by simp
  have th: "tier_thresholds example_strategy (volatility ?f) = Inr ?th"
    by (simp add: example_thresholds)
  have len: "60 \<le> length (fetch_nav_history ?w (code ?f) (ma_days example_strategy + 30))"
    by (simp add: example_history_length)
  have ma: "moving_average (ma_days example_strategy)
              (map snd (fetch_nav_history ?w (code ?f) (ma_days example_strategy + 30))) = Inr 100"
    by (simp add: example_moving_average)
  have dev: "deviation (snd (last (fetch_nav_history ?w (code ?f)
                 (ma_days example_strategy + 30)))) 100 = Inr (- 21)"
    by (simp add: example_history_last deviation_def)
  have trig: "\<not> sell_pct ?th \<le> (- 21 :: real)" "(- 21 :: real) \<le> buy_pct ?th" by simp_all
  obtain sg2 where
    held: "held_shares sg2 = get_current_shares (code ?f) ?log" and
    cd: "sig_fund_code sg2 = code ?f" and
    fs: "fund_signal ?w example_strategy ?log ?f =
       buy_branch ?w example_strategy ?log (code ?f) (max_shares ?f) (- 21) (buy_pct ?th) sg2"
    by (rule fund_signal_buy_branch [OF vol len ma dev th trig])
  have "held_shares sg2 < max_shares ?f"
    using held by (simp add: example_ledger_simps)
  note q = quota_check_buy [OF this, of example_strategy ?log "code ?f" "- 21" "buy_pct ?th"]
  have ty: "signal_type (sg2\<lparr>signal_type := ''buy'', reason := BuyTriggered (- 21) (buy_pct ?th)\<rparr>)
              = ''buy'' \<or>
            signal_type (sg2\<lparr>signal_type := ''buy'', reason := BuyTriggered (- 21) (buy_pct ?th)\<rparr>)
              = ''extra_buy''"
    by simp
  have gap: "days_since ?w (recent_buy (code ?f) ?log) = Inr (Some 376)"
    by (simp add: example_ledger_simps)
  from buy_branch_typed [OF q ty gap] obtain sg where
    sg: "buy_branch ?w example_strategy ?log (code ?f) (max_shares ?f) (- 21) (buy_pct ?th) sg2
           = Inr sg"
      "signal_type sg = ''buy''" "block_reasons sg = []" "can_execute sg"
    by auto
  from buy_branch_code [OF sg(1)] cd have "sig_fund_code sg = ''X''" by simp
  with sg fs show ?thesis by simp
qed

lemma example_refused_signal:
  "\<exists>sg. fund_signal (example_world (example_history 100 121 79)) example_strategy
          [trade ''2024-01-02'' ''X'' ''buy'' 100 1, trade ''2024-01-02'' ''X'' ''extra_buy'' 90 1]
          (example_fund ''mid'' 1) = Inr sg \<and>
        signal_type sg = [] \<and> \<not> can_execute sg \<and> block_reasons sg = [QuotaFullExtraUsed 2 1] \<and>
        sig_fund_code sg = ''X''"
proof -
  let ?f = "example_fund ''mid'' 1"
  let ?w = "example_world (example_history 100 121 79)"
  let ?log = "[trade ''2024-01-02'' ''X'' ''buy'' 100 1,
               trade ''2024-01-02'' ''X'' ''extra_buy'' 90 1]"
  let ?th = "\<lparr>buy_pct = - 15, sell_pct = 20\<rparr>"
  have vol: "volatility ?f \<noteq> ''low''" by simp
  have th: "tier_thresholds example_strategy (volatility ?f) = Inr ?th"
    by (simp add: example_thresholds)
  have len: "60 \<le> length (fetch_nav_history ?w (code ?f) (ma_days example_strategy + 30))"
    by (simp add: example_history_length)
  have ma: "moving_average (ma_days example_strategy)
              (map snd (fetch_nav_history ?w (code ?f) (ma_days example_strategy + 30))) = Inr 100"
    by (simp add: example_moving_average)
  have dev: "deviation (snd (last (fetch_nav_history ?w (code ?f)
                 (ma_days example_strategy + 30)))) 100 = Inr (- 21)"
    by (simp add: example_history_last deviation_def)
  have trig: "\<not> sell_pct ?th \<le> (- 21 :: real)" "(- 21 :: real) \<le> buy_pct ?th" by simp_all
  obtain sg2 where
    held: "held_shares sg2 = get_current_shares (code ?f) ?log" and
    ty: "signal_type sg2 = []" and
    cd: "sig_fund_code sg2 = code ?f" and
    fs: "fund_signal ?w example_strategy ?log ?f =
       buy_branch ?w example_strategy ?log (code ?f) (max_shares ?f) (- 21) (buy_pct ?th) sg2"
    by (rule fund_signal_buy_branch [OF vol len ma dev th trig])
  have h2: "held_shares sg2 = 2" using held by (simp add: example_ledger_simps)
  then have full: "max_shares ?f \<le> held_shares sg2" by simp
  have used: "has_used_extra (code ?f) ?log" by (simp add: example_ledger_simps)
  note q = quota_check_extra_used [OF full used, of example_strategy "- 21" "buy_pct ?th"]
  from buy_branch_blocked [OF q ty, of ?w] fs ty cd h2 show ?thesis by simp
qed

lemma compute_signals_single:
  assumes "fund_signal w (strategy cfg) trade_log f = Inr sg" and "funds cfg = [f]"
  shows "compute_signals w cfg trade_log = Inr [sg]"
  using assms by (simp add: compute_signals_def)

lemma example_config_simps [simp]:
  "strategy (example_config fs) = example_strategy" "funds (example_config fs) = fs"
  by (simp_all add: example_config_def)

text \<open>What an unset type tells about the run that left it.\<close>

lemma quota_check_unset:
  assumes "quota_check st trade_log c mx dev buy_th sg = Inr (blocks, sg1)"
    and "signal_type sg1 = []"
  shows "sg1 = sg \<and> mx \<le> held_shares sg \<and>
         (has_used_extra c trade_log \<and> blocks = [QuotaFullExtraUsed (held_shares sg) mx] \<or>
          \<not> has_used_extra c trade_log \<and> get_last_buy_nav c trade_log = None \<and>
            blocks = [QuotaFullNoLastBuy (held_shares sg) mx] \<or>
          (\<exists>lb. \<not> has_used_extra c trade_log \<and> get_last_buy_nav c trade_log = Some lb \<and>
             lb \<noteq> 0 \<and> extra_drop_pct st < (current_nav sg - lb) / lb * 100 \<and>
             blocks = [QuotaFullDropShort (held_shares sg) mx
                         ((current_nav sg - lb) / lb * 100) (extra_drop_pct st)]))"
  using assms
  by (auto simp: quota_check_def Let_def split: if_splits option.splits)

lemma buy_branch_unset:
  assumes "buy_branch w st trade_log c mx dev buy_th sg = Inr sg'"
    and "signal_type sg' = []"
  shows "\<not> can_execute sg' \<and> mx \<le> held_shares sg \<and>
         (has_used_extra c trade_log \<and>
            block_reasons sg' = [QuotaFullExtraUsed (held_shares sg) mx] \<or>
          \<not> has_used_extra c trade_log \<and> get_last_buy_nav c trade_log = None \<and>
            block_reasons sg' = [QuotaFullNoLastBuy (held_shares sg) mx] \<or>
          (\<exists>lb. \<not> has_used_extra c trade_log \<and> get_last_buy_nav c trade_log = Some lb \<and>
             lb \<noteq> 0 \<and> extra_drop_pct st < (current_nav sg - lb) / lb * 100 \<and>
             block_reasons sg' = [QuotaFullDropShort (held_shares sg) mx
                         ((current_nav sg - lb) / lb * 100) (extra_drop_pct st)]))"
proof -
  from assms(1) obtain blocks0 sg1 blocks where
    q: "quota_check st trade_log c mx dev buy_th sg = Inr (blocks0, sg1)" and
    cd: "buy_cooldown_check w st trade_log c dev buy_th blocks0 sg1 = Inr blocks" and
    sg': "sg' = sg1\<lparr>block_reasons := blocks,
                  can_execute := (length blocks = 0 \<and>
                    (signal_type sg1 = ''buy'' \<or> signal_type sg1 = ''extra_buy''))\<rparr>"
    by (auto simp: buy_branch_def split: sum.splits prod.splits)
  from sg' assms(2) have ty1: "signal_type sg1 = []" by simp
  then have "buy_cooldown_check w st trade_log c dev buy_th blocks0 sg1 = Inr blocks0"
    by (simp add: buy_cooldown_check_unset)
  with cd have bl: "blocks = blocks0" by simp
  from quota_check_unset [OF q ty1] sg' ty1 bl show ?thesis by auto
qed

lemma fund_signal_unset:
  assumes "fund_signal w st trade_log f = Inr sg" and "signal_type sg = []"
  shows "\<not> can_execute sg \<and> volatility f \<noteq> ''low'' \<and>
         max_shares f \<le> get_current_shares (code f) trade_log \<and>
         (\<exists>ma dev th.
            60 \<le> length (fetch_nav_history w (code f) (ma_days st + 30)) \<and>
            moving_average (ma_days st)
              (map snd (fetch_nav_history w (code f) (ma_days st + 30))) = Inr ma \<and>
            deviation (snd (last (fetch_nav_history w (code f) (ma_days st + 30)))) ma = Inr dev \<and>
            tier_thresholds st (volatility f) = Inr th \<and>
            \<not> sell_pct th \<le> dev \<and> dev \<le> buy_pct th) \<and>
         (has_used_extra (code f) trade_log \<and>
            block_reasons sg =
              [QuotaFullExtraUsed (get_current_shares (code f) trade_log) (max_shares f)] \<or>
          \<not> has_used_extra (code f) trade_log \<and> get_last_buy_nav (code f) trade_log = None \<and>
            block_reasons sg =
              [QuotaFullNoLastBuy (get_current_shares (code f) trade_log) (max_shares f)] \<or>
          (\<exists>lb. \<not> has_used_extra (code f) trade_log \<and>
             get_last_buy_nav (code f) trade_log = Some lb \<and> lb \<noteq> 0 \<and>
             extra_drop_pct st <
               (snd (last (fetch_nav_history w (code f) (ma_days st + 30))) - lb) / lb * 100 \<and>
             block_reasons sg =
               [QuotaFullDropShort (get_current_shares (code f) trade_log) (max_shares f)
                  ((snd (last (fetch_nav_history w (code f) (ma_days st + 30))) - lb) / lb * 100)
                  (extra_drop_pct st)]))"
proof (cases "volatility f = ''low''")
  case True
  with assms(1) have "sg = low_branch w trade_log f (init_signal f)"
    by (simp add: fund_signal_init)
  with assms(2) show ?thesis
    by (simp add: low_branch_fields split: if_splits)
next
  case False
  with assms(1) have tb: "timing_branch w st trade_log f (init_signal f) = Inr sg"
    by (simp add: fund_signal_init)
  let ?h = "fetch_nav_history w (code f) (ma_days st + 30)"
  from timing_branch_result [OF tb] show ?thesis
  proof (elim disjE conjE exE)
    assume "sg = init_signal f\<lparr>signal_type := ''none'', reason := HistoryTooShort (length ?h)\<rparr>"
    with assms(2) show ?thesis by simp
  next
    fix ma dev th
    assume long: "60 \<le> length ?h"
      and ma: "moving_average (ma_days st) (map snd ?h) = Inr ma"
      and dev: "deviation (snd (last ?h)) ma = Inr dev"
      and th: "tier_thresholds st (volatility f) = Inr th"
    from timing_branch_long [OF long ma dev th, of trade_log "init_signal f"] tb
    obtain sg2 where
      cur: "current_nav sg2 = snd (last ?h)" and
      held: "held_shares sg2 = get_current_shares (code f) trade_log" and
      eq: "Inr sg =
             (if sell_pct th \<le> dev
              then sell_branch w st trade_log (code f) dev (sell_pct th) sg2
              else if dev \<le> buy_pct th
              then buy_branch w st trade_log (code f) (max_shares f) dev (buy_pct th) sg2
              else Inr (sg2\<lparr>signal_type := ''none'',
                            reason := NotTriggered dev (buy_pct th) (sell_pct th)\<rparr>))"
      by auto
    consider (sell) "sell_pct th \<le> dev"
      | (buy) "\<not> sell_pct th \<le> dev" "dev \<le> buy_pct th"
      | (none) "\<not> sell_pct th \<le> dev" "\<not> dev \<le> buy_pct th"
      by blast
    then show ?thesis
    proof cases
      case sell
      with eq have "sell_branch w st trade_log (code f) dev (sell_pct th) sg2 = Inr sg"
        by simp
      from sell_branch_result [OF this] assms(2) show ?thesis by auto
    next
      case buy
      with eq have
        "buy_branch w st trade_log (code f) (max_shares f) dev (buy_pct th) sg2 = Inr sg"
        by simp
      from buy_branch_unset [OF this assms(2)] cur held
      have "\<not> can_execute sg \<and> max_shares f \<le> get_current_shares (code f) trade_log \<and>
         (has_used_extra (code f) trade_log \<and>
            block_reasons sg =
              [QuotaFullExtraUsed (get_current_shares (code f) trade_log) (max_shares f)] \<or>
          \<not> has_used_extra (code f) trade_log \<and> get_last_buy_nav (code f) trade_log = None \<and>
            block_reasons sg =
              [QuotaFullNoLastBuy (get_current_shares (code f) trade_log) (max_shares f)] \<or>
          (\<exists>lb. \<not> has_used_extra (code f) trade_log \<and>
             get_last_buy_nav (code f) trade_log = Some lb \<and> lb \<noteq> 0 \<and>
             extra_drop_pct st < (snd (last ?h) - lb) / lb * 100 \<and>
             block_reasons sg =
               [QuotaFullDropShort (get_current_shares (code f) trade_log) (max_shares f)
                  ((snd (last ?h) - lb) / lb * 100) (extra_drop_pct st)]))"
        by simp
      moreover have "\<exists>ma dev th.
            60 \<le> length ?h \<and> moving_average (ma_days st) (map snd ?h) = Inr ma \<and>
            deviation (snd (last ?h)) ma = Inr dev \<and>
            tier_thresholds st (volatility f) = Inr th \<and>
            \<not> sell_pct th \<le> dev \<and> dev \<le> buy_pct th"
        using long ma dev th buy by blast
      ultimately show ?thesis using False by blast
    next
      case none
      with eq have "sg = sg2\<lparr>signal_type := ''none'',
                            reason := NotTriggered dev (buy_pct th) (sell_pct th)\<rparr>"
        by simp
      with assms(2) show ?thesis by simp
    qed
  qed
qed

section \<open>The claims about every signal of a run\<close>

text \<open>
  C2, as stated: every signal has a type among \<^verbatim>\<open>buy\<close>, \<^verbatim>\<open>sell\<close>, \<^verbatim>\<open>extra_buy\<close>,
  \<^verbatim>\<open>extra_sell\<close>, \<^verbatim>\<open>hold_buy\<close> and \<^verbatim>\<open>none\<close>. This fails: in the buy branch with the
  quota full and the extra buy already used, \<^verbatim>\<open>signal_type\<close> keeps the empty string of
  \<^verbatim>\<open>Signal.__init__\<close>.
\<close>

theorem unset_signal_type_counterexample:
  "map_sum id (map signal_type)
     (compute_signals (example_world (example_history 100 121 79))
        (example_config [example_fund ''mid'' 1])
        [trade ''2024-01-02'' ''X'' ''buy'' 100 1, trade ''2024-01-02'' ''X'' ''extra_buy'' 90 1])
     = Inr [''''] \<and>
   '''' \<notin> {''buy'', ''sell'', ''extra_buy'', ''extra_sell'', ''hold_buy'', ''none''}"
proof -
  from example_refused_signal obtain sg where
    sg: "fund_signal (example_world (example_history 100 121 79)) example_strategy
          [trade ''2024-01-02'' ''X'' ''buy'' 100 1, trade ''2024-01-02'' ''X'' ''extra_buy'' 90 1]
          (example_fund ''mid'' 1) = Inr sg" and ty: "signal_type sg = []"
    by blast
  have "compute_signals (example_world (example_history 100 121 79))
          (example_config [example_fund ''mid'' 1])
          [trade ''2024-01-02'' ''X'' ''buy'' 100 1, trade ''2024-01-02'' ''X'' ''extra_buy'' 90 1]
        = Inr [sg]"
    by (rule compute_signals_single) (simp_all add: sg)
  with ty show ?thesis by simp
qed

text \<open>
  C2, amended: every signal of \<^verbatim>\<open>compute_signals\<close> has one of the six types or the
  unset type (the empty string). A signal of unset type is not executable and belongs to a
  fund of a tier other than \<^verbatim>\<open>low\<close> with at least 60 price points, whose deviation
  triggered the buy threshold and not the sell threshold, whose held shares have reached
  \<^verbatim>\<open>max_shares\<close>, and whose extra buy was refused: its only block says that the extra
  buy is used, or that there is no last buy, or that the drop from the last buy nav is
  above \<^verbatim>\<open>extra_drop_pct\<close>.
\<close>

theorem signal_type_enumeration_or_unset:
  assumes "compute_signals w cfg trade_log = Inr signals" and "sg \<in> set signals"
  shows "(signal_type sg \<in> {''buy'', ''sell'', ''extra_buy'', ''extra_sell'', ''hold_buy'', ''none''}
            \<or> signal_type sg = '''') \<and>
         (signal_type sg = '''' \<longrightarrow>
            \<not> can_execute sg \<and> block_reasons sg \<noteq> [] \<and>
            (\<exists>f \<in> set (funds cfg). code f = sig_fund_code sg \<and> volatility f \<noteq> ''low'' \<and>
               max_shares f \<le> get_current_shares (code f) trade_log \<and>
               (\<exists>ma dev th.
                  60 \<le> length (fetch_nav_history w (code f) (ma_days (strategy cfg) + 30)) \<and>
                  moving_average (ma_days (strategy cfg))
                    (map snd (fetch_nav_history w (code f) (ma_days (strategy cfg) + 30)))
                    = Inr ma \<and>
                  deviation
                    (snd (last (fetch_nav_history w (code f) (ma_days (strategy cfg) + 30)))) ma
                    = Inr dev \<and>
                  tier_thresholds (strategy cfg) (volatility f) = Inr th \<and>
                  \<not> sell_pct th \<le> dev \<and> dev \<le> buy_pct th) \<and>
               (has_used_extra (code f) trade_log \<and>
                  block_reasons sg =
                    [QuotaFullExtraUsed (get_current_shares (code f) trade_log) (max_shares f)] \<or>
                \<not> has_used_extra (code f) trade_log \<and>
                  get_last_buy_nav (code f) trade_log = None \<and>
                  block_reasons sg =
                    [QuotaFullNoLastBuy (get_current_shares (code f) trade_log) (max_shares f)] \<or>
                (\<exists>lb. \<not> has_used_extra (code f) trade_log \<and>
                   get_last_buy_nav (code f) trade_log = Some lb \<and> lb \<noteq> 0 \<and>
                   extra_drop_pct (strategy cfg) <
                     (snd (last (fetch_nav_history w (code f) (ma_days (strategy cfg) + 30))) - lb)
                       / lb * 100 \<and>
                   block_reasons sg =
                     [QuotaFullDropShort (get_current_shares (code f) trade_log) (max_shares f)
                        ((snd (last (fetch_nav_history w (code f) (ma_days (strategy cfg) + 30)))
                            - lb) / lb * 100)
                        (extra_drop_pct (strategy cfg))]))))"
proof -
  from compute_signals_member [OF assms] obtain f where
    f: "f \<in> set (funds cfg)" and fs: "fund_signal w (strategy cfg) trade_log f = Inr sg"
    by blast
  from fund_signal_result [OF fs]
  have enum: "signal_type sg \<in> {''buy'', ''sell'', ''extra_buy'', ''extra_sell'', ''hold_buy'', ''none''}
            \<or> signal_type sg = ''''"
    and cd: "sig_fund_code sg = code f"
    and bl: "signal_type sg = [] \<longrightarrow> block_reasons sg \<noteq> []"
    by auto
  show ?thesis
  proof (cases "signal_type sg = []")
    case False
    with enum show ?thesis by simp
  next
    case True
    from fund_signal_unset [OF fs True] bl True cd f enum show ?thesis
      by (intro conjI impI bexI [of _ f]) (simp_all del: ex_simps)
  qed
qed

theorem signal_type_enumeration_or_unset_witness:
  "\<exists>sg. compute_signals (example_world (example_history 100 121 79))
           (example_config [example_fund ''mid'' 1])
           [trade ''2024-01-02'' ''X'' ''buy'' 100 1, trade ''2024-01-02'' ''X'' ''extra_buy'' 90 1]
         = Inr [sg] \<and>
        signal_type sg = '''' \<and> \<not> can_execute sg \<and> block_reasons sg = [QuotaFullExtraUsed 2 1] \<and>
        get_current_shares ''X''
          [trade ''2024-01-02'' ''X'' ''buy'' 100 1, trade ''2024-01-02'' ''X'' ''extra_buy'' 90 1]
          = 2 \<and>
        has_used_extra ''X''
          [trade ''2024-01-02'' ''X'' ''buy'' 100 1, trade ''2024-01-02'' ''X'' ''extra_buy'' 90 1]"
proof -
  let ?w = "example_world (example_history 100 121 79)"
  let ?cfg = "example_config [example_fund ''mid'' 1]"
  let ?log = "[trade ''2024-01-02'' ''X'' ''buy'' 100 1,
               trade ''2024-01-02'' ''X'' ''extra_buy'' 90 1]"
  from example_refused_signal obtain sg where
    sg: "fund_signal ?w example_strategy ?log (example_fund ''mid'' 1) = Inr sg" and
    ty: "signal_type sg = []" and cdx: "sig_fund_code sg = ''X''"
    by blast
  have cs: "compute_signals ?w ?cfg ?log = Inr [sg]"
    by (rule compute_signals_single) (simp_all add: sg)
  have mem: "sg \<in> set [sg]" by simp
  have held: "get_current_shares ''X'' ?log = 2" by (simp add: example_ledger_simps)
  have used: "has_used_extra ''X'' ?log" by (simp add: example_ledger_simps)
  from signal_type_enumeration_or_unset [OF cs mem] ty cdx held used
  have "\<not> can_execute sg \<and> block_reasons sg = [QuotaFullExtraUsed 2 1]"
    by (simp add: trade_def)
  with cs ty held used show ?thesis by blast
qed

text \<open>
  C10. Every signal of \<^verbatim>\<open>compute_signals\<close> with \<^verbatim>\<open>can_execute\<close> has a type among
  \<^verbatim>\<open>hold_buy\<close>, \<^verbatim>\<open>buy\<close>, \<^verbatim>\<open>extra_buy\<close>, \<^verbatim>\<open>sell\<close> and \<^verbatim>\<open>extra_sell\<close>; so
  \<^verbatim>\<open>execute_signals\<close> reports exactly the executable signals and, when not a dry run,
  appends one row for each of them.
\<close>

theorem executable_signal_has_action:
  assumes "compute_signals w cfg trade_log = Inr signals"
  shows "(\<forall>sg \<in> set signals. can_execute sg \<longrightarrow>
            signal_type sg \<in> {''hold_buy'', ''buy'', ''extra_buy'', ''sell'', ''extra_sell''}) \<and>
         fst (execute_signals signals dry_run trade_log) = filter can_execute signals \<and>
         snd (execute_signals signals False trade_log) =
           trade_log @ map appended_row (filter can_execute signals)"
proof -
  have typed: "\<forall>sg \<in> set signals. can_execute sg \<longrightarrow> executable_type sg"
    using compute_signals_executable [OF assms] by blast
  from execute_loop_typed [OF typed] typed show ?thesis
    by (auto simp: execute_signals_def executable_type_def)
qed

theorem executable_signal_has_action_witness:
  "\<exists>sg. compute_signals (example_world (example_history 100 121 79))
           (example_config [example_fund ''mid'' 10]) [trade ''2024-01-02'' ''X'' ''buy'' 100 1]
         = Inr [sg] \<and>
        can_execute sg \<and> signal_type sg = ''buy'' \<and>
        fst (execute_signals [sg] False [trade ''2024-01-02'' ''X'' ''buy'' 100 1]) = [sg] \<and>
        snd (execute_signals [sg] False [trade ''2024-01-02'' ''X'' ''buy'' 100 1]) =
          [trade ''2024-01-02'' ''X'' ''buy'' 100 1, appended_row sg] \<and>
        action (appended_row sg) = ''buy'' \<and> shares_delta (appended_row sg) = 1"
proof -
  let ?w = "example_world (example_history 100 121 79)"
  let ?cfg = "example_config [example_fund ''mid'' 10]"
  let ?log = "[trade ''2024-01-02'' ''X'' ''buy'' 100 1]"
  from example_buy_signal obtain sg where
    sg: "fund_signal ?w example_strategy ?log (example_fund ''mid'' 10) = Inr sg" and
    ty: "signal_type sg = ''buy''" and ce: "can_execute sg"
    by blast
  have cs: "compute_signals ?w ?cfg ?log = Inr [sg]"
    by (rule compute_signals_single) (simp_all add: sg)
  from executable_signal_has_action [OF cs, of False] ce ty
  have "fst (execute_signals [sg] False ?log) = [sg]"
    and "snd (execute_signals [sg] False ?log) = ?log @ [appended_row sg]"
    by simp_all
  moreover have "action (appended_row sg) = ''buy''" "shares_delta (appended_row sg) = 1"
    using ty by (simp_all add: appended_row_def)
  ultimately show ?thesis using cs ce ty by auto
qed

section \<open>Extra buys over runs\<close>

lemma has_used_extra_count: "has_used_extra c trade_log \<longleftrightarrow> 0 < extra_buy_count c trade_log"
  by (induction trade_log) (auto simp: extra_buy_count_def)

lemma extra_buy_count_append:
  "extra_buy_count c (xs @ ys) = extra_buy_count c xs + extra_buy_count c ys"
  by (simp add: extra_buy_count_def)

lemma extra_buy_count_appended_rows:
  "extra_buy_count c (map appended_row sgs) =
     length (filter (\<lambda>sg. signal_type sg = ''extra_buy'' \<and> sig_fund_code sg = c) sgs)"
  by (induction sgs) (auto simp: extra_buy_count_def appended_row_def)

lemma compute_signals_codes:
  assumes "compute_signals w cfg trade_log = Inr signals"
  shows "map sig_fund_code signals = map code (funds cfg)"
proof -
  from compute_signals_result [OF assms]
  have "list_all2 (\<lambda>f sg. sig_fund_code sg = code f) (funds cfg) signals"
    by (rule list_all2_mono) (simp add: fund_signal_result)
  then show ?thesis
    by (induction rule: list_all2_induct) simp_all
qed

lemma filter_distinct_code:
  assumes "distinct (map sig_fund_code sgs)"
  shows "length (filter (\<lambda>sg. P sg \<and> sig_fund_code sg = c) sgs) \<le> 1"
  using assms
proof (induction sgs)
  case Nil
  then show ?case by simp
next
  case (Cons sg sgs)
  show ?case
  proof (cases "sig_fund_code sg = c")
    case True
    with Cons.prems have "c \<notin> sig_fund_code ` set sgs" by simp
    then have "\<forall>x \<in> set sgs. sig_fund_code x \<noteq> c" by blast
    then have "filter (\<lambda>sg. P sg \<and> sig_fund_code sg = c) sgs = []"
      by (simp add: filter_empty_conv)
    then show ?thesis by simp
  next
    case False
    with Cons show ?thesis by simp
  qed
qed

lemma extra_buy_gate:
  assumes "compute_signals w cfg trade_log = Inr signals" and "sg \<in> set signals"
    and "has_used_extra (sig_fund_code sg) trade_log"
  shows "signal_type sg \<noteq> ''extra_buy''"
proof -
  from compute_signals_member [OF assms(1,2)] obtain f where
    "fund_signal w (strategy cfg) trade_log f = Inr sg" by blast
  from fund_signal_result [OF this] assms(3) show ?thesis by auto
qed

lemma run_extra_buy_count:
  assumes "run w cfg dry_run trade_log = Inr trade_log'"
    and "distinct (map code (funds cfg))"
  shows "extra_buy_count c trade_log' \<le> max 1 (extra_buy_count c trade_log)"
proof -
  from assms(1) obtain signals where
    cs: "compute_signals w cfg trade_log = Inr signals" and
    log': "trade_log' = snd (execute_signals signals dry_run trade_log)"
    by (auto simp: run_def split: sum.splits)
  have typed: "\<forall>sg \<in> set signals. can_execute sg \<longrightarrow> executable_type sg"
    using compute_signals_executable [OF cs] by blast
  let ?new = "filter (\<lambda>sg. signal_type sg = ''extra_buy'' \<and> sig_fund_code sg = c)
                (filter can_execute signals)"
  have count: "extra_buy_count c trade_log' =
                 extra_buy_count c trade_log + (if dry_run then 0 else length ?new)"
    using execute_loop_typed [OF typed, of dry_run "[]" trade_log] log'
    by (simp add: execute_signals_def extra_buy_count_append extra_buy_count_appended_rows)
  have "distinct (map sig_fund_code signals)"
    using compute_signals_codes [OF cs] assms(2) by simp
  from filter_distinct_code [OF this, of "\<lambda>sg. can_execute sg \<and> signal_type sg = ''extra_buy''" c]
  have le1: "length ?new \<le> 1"
    by (simp add: conj_commute conj_left_commute cong: conj_cong)
  show ?thesis
  proof (cases "has_used_extra c trade_log")
    case True
    have "?new = []"
      using extra_buy_gate [OF cs] True by (auto simp: filter_empty_conv)
    with count show ?thesis by simp
  next
    case False
    then have "extra_buy_count c trade_log = 0" by (simp add: has_used_extra_count)
    with count le1 show ?thesis by simp
  qed
qed

lemma runs_extra_buy_count:
  assumes "\<forall>r \<in> set rs. distinct (map code (funds (fst (snd r))))"
  shows "extra_buy_count c (runs rs trade_log) \<le> max 1 (extra_buy_count c trade_log)"
  using assms
proof (induction rs arbitrary: trade_log)
  case Nil
  then show ?case by simp
next
  case (Cons r rs)
  obtain w cfg dry_run where r: "r = (w, cfg, dry_run)" by (cases r)
  let ?next = "case run w cfg dry_run trade_log of Inl e \<Rightarrow> trade_log | Inr l \<Rightarrow> l"
  have step: "extra_buy_count c ?next \<le> max 1 (extra_buy_count c trade_log)"
  proof (cases "run w cfg dry_run trade_log")
    case (Inl e)
    then show ?thesis by simp
  next
    case (Inr l)
    from Cons.prems r have "distinct (map code (funds cfg))" by simp
    from run_extra_buy_count [OF Inr this] Inr show ?thesis by simp
  qed
  from Cons.prems have "\<forall>r \<in> set rs. distinct (map code (funds (fst (snd r))))" by simp
  from Cons.IH [OF this, of ?next] step r show ?case by simp
qed

text \<open>A third run: the extra buy is accepted.\<close>

lemma example_extra_buy_signal:
  "\<exists>sg. fund_signal (example_world (example_history (9 / 8) (27 / 20) (9 / 10))) example_strategy
          full_quota_ledger (example_fund ''mid'' 10) = Inr sg \<and>
        signal_type sg = ''extra_buy'' \<and> can_execute sg \<and> sig_fund_code sg = ''X''"
proof -
  let ?f = "example_fund ''mid'' 10"
  let ?w = "example_world (example_history (9 / 8) (27 / 20) (9 / 10))"
  let ?th = "\<lparr>buy_pct = - 15, sell_pct = 20\<rparr>"
  have vol: "volatility ?f \<noteq> ''low''" by simp
  have th: "tier_thresholds example_strategy (volatility ?f) = Inr ?th"
    by (simp add: example_thresholds)
  have len: "60 \<le> length (fetch_nav_history ?w (code ?f) (ma_days example_strategy + 30))"
    by (simp add: example_history_length)
  have ma: "moving_average (ma_days example_strategy)
              (map snd (fetch_nav_history ?w (code ?f) (ma_days example_strategy + 30))) =
              Inr (9 / 8)"
    by (simp add: example_moving_average)
  have dev: "deviation (snd (last (fetch_nav_history ?w (code ?f)
                 (ma_days example_strategy + 30)))) (9 / 8) = Inr (- 20)"
    by (simp add: example_history_last deviation_def)
  have trig: "\<not> sell_pct ?th \<le> (- 20 :: real)" "(- 20 :: real) \<le> buy_pct ?th" by simp_all
  obtain sg2 where
    cur: "current_nav sg2 =
            snd (last (fetch_nav_history ?w (code ?f) (ma_days example_strategy + 30)))" and
    held: "held_shares sg2 = get_current_shares (code ?f) full_quota_ledger" and
    cd: "sig_fund_code sg2 = code ?f" and
    fs: "fund_signal ?w example_strategy full_quota_ledger ?f =
       buy_branch ?w example_strategy full_quota_ledger (code ?f) (max_shares ?f) (- 20)
         (buy_pct ?th) sg2"
    by (rule fund_signal_buy_branch [OF vol len ma dev th trig])
  have full: "max_shares ?f \<le> held_shares sg2"
    using held by (simp add: full_quota_ledger_facts)
  have unused: "\<not> has_used_extra (code ?f) full_quota_ledger"
    and lb: "get_last_buy_nav (code ?f) full_quota_ledger = Some 1"
    and gap: "days_since ?w (recent_buy (code ?f) full_quota_ledger) = Inr (Some 376)"
    by (simp_all add: full_quota_ledger_facts)
  have nz: "(1::real) \<noteq> 0" by simp
  have cur': "current_nav sg2 = 9 / 10" using cur by (simp add: example_history_last)
  let ?sg1 = "sg2\<lparr>signal_type := ''extra_buy'',
                   reason := ExtraBuyTriggered (- 20) 1 ((current_nav sg2 - 1) / 1 * 100)\<rparr>"
  have q: "quota_check example_strategy full_quota_ledger (code ?f) (max_shares ?f) (- 20)
             (buy_pct ?th) sg2 = Inr ([], ?sg1)"
    using quota_check_drop [OF full unused lb nz, of example_strategy "- 20" "buy_pct ?th"] cur'
    by simp
  have ty: "signal_type ?sg1 = ''buy'' \<or> signal_type ?sg1 = ''extra_buy''" by simp
  from buy_branch_typed [OF q ty gap] obtain sg where
    sg: "buy_branch ?w example_strategy full_quota_ledger (code ?f) (max_shares ?f) (- 20)
           (buy_pct ?th) sg2 = Inr sg"
      "signal_type sg = ''extra_buy''" "block_reasons sg = []" "can_execute sg"
    by auto
  from buy_branch_code [OF sg(1)] cd have "sig_fund_code sg = ''X''" by simp
  with sg fs show ?thesis by simp
qed

lemma extra_buy_count_full_quota: "extra_buy_count ''X'' full_quota_ledger = 0"
  by (simp add: extra_buy_count_def full_quota_ledger_def trade_def filter_replicate)

text \<open>
  C5. \<^verbatim>\<open>has_used_extra\<close> is a hard gate: when the ledger holds an \<^verbatim>\<open>extra_buy\<close> row of a
  fund, no signal of \<^verbatim>\<open>compute_signals\<close> for that fund has the type \<^verbatim>\<open>extra_buy\<close>. So
  over any sequence of runs (dry or not, aborted or not) whose configurations list every
  fund code once, the number of \<^verbatim>\<open>extra_buy\<close> rows of a fund never exceeds 1, or the number
  the ledger started with.
\<close>

theorem extra_buy_at_most_once:
  "(compute_signals w cfg trade_log = Inr signals \<and> sg \<in> set signals \<and>
      has_used_extra (sig_fund_code sg) trade_log \<longrightarrow> signal_type sg \<noteq> ''extra_buy'') \<and>
   ((\<forall>r \<in> set rs. distinct (map code (funds (fst (snd r))))) \<longrightarrow>
      extra_buy_count c (runs rs trade_log) \<le> max 1 (extra_buy_count c trade_log))"
  using extra_buy_gate [of w cfg trade_log signals sg] runs_extra_buy_count [of rs c trade_log]
  by blast

theorem extra_buy_at_most_once_witness:
  "extra_buy_count ''X'' full_quota_ledger = 0 \<and>
   extra_buy_count ''X''
     (runs [(example_world (example_history (9 / 8) (27 / 20) (9 / 10)),
             example_config [example_fund ''mid'' 10], False)] full_quota_ledger) = 1 \<and>
   extra_buy_count ''X''
     (runs [(example_world (example_history (9 / 8) (27 / 20) (9 / 10)),
             example_config [example_fund ''mid'' 10], False),
            (example_world (example_history (9 / 8) (27 / 20) (9 / 10)),
             example_config [example_fund ''mid'' 10], False)] full_quota_ledger) \<le> 1 \<and>
   (\<exists>sg. compute_signals (example_world (example_history 100 121 79))
            (example_config [example_fund ''mid'' 1])
            [trade ''2024-01-02'' ''X'' ''buy'' 100 1, trade ''2024-01-02'' ''X'' ''extra_buy'' 90 1]
          = Inr [sg] \<and>
        has_used_extra (sig_fund_code sg)
          [trade ''2024-01-02'' ''X'' ''buy'' 100 1, trade ''2024-01-02'' ''X'' ''extra_buy'' 90 1] \<and>
        signal_type sg \<noteq> ''extra_buy'')"
proof -
  let ?w = "example_world (example_history (9 / 8) (27 / 20) (9 / 10))"
  let ?cfg = "example_config [example_fund ''mid'' 10]"
  let ?r = "(?w, ?cfg, False)"
  let ?v = "example_world (example_history 100 121 79)"
  let ?vcfg = "example_config [example_fund ''mid'' 1]"
  let ?vlog = "[trade ''2024-01-02'' ''X'' ''buy'' 100 1,
                trade ''2024-01-02'' ''X'' ''extra_buy'' 90 1]"
  have dist: "\<forall>r \<in> set [?r, ?r]. distinct (map code (funds (fst (snd r))))" by simp
  have twice: "extra_buy_count ''X'' (runs [?r, ?r] full_quota_ledger) \<le> 1"
    using extra_buy_at_most_once [where rs = "[?r, ?r]" and c = "''X''"
        and trade_log = full_quota_ledger] dist
      extra_buy_count_full_quota
    by simp
  from example_extra_buy_signal obtain sg where
    sg: "fund_signal ?w example_strategy full_quota_ledger (example_fund ''mid'' 10) = Inr sg" and
    ty: "signal_type sg = ''extra_buy''" and ce: "can_execute sg" and
    cd: "sig_fund_code sg = ''X''"
    by blast
  from sg have "fund_signal ?w (strategy ?cfg) full_quota_ledger (example_fund ''mid'' 10) = Inr sg"
    by simp
  from compute_signals_single [OF this]
  have cs: "compute_signals ?w ?cfg full_quota_ledger = Inr [sg]" by simp
  have ex: "executable_type sg" using ty by (simp add: executable_type_def)
  have "run ?w ?cfg False full_quota_ledger = Inr (full_quota_ledger @ [appended_row sg])"
    using execute_one_typed [OF ce ex, of False "[]" full_quota_ledger]
    by (simp add: run_def cs execute_signals_def)
  then have once: "extra_buy_count ''X'' (runs [?r] full_quota_ledger) = 1"
    using ty cd
    by (simp add: extra_buy_count_append extra_buy_count_full_quota)
      (simp add: extra_buy_count_def appended_row_def)
  from example_refused_signal obtain sg0 where
    sg0: "fund_signal ?v example_strategy ?vlog (example_fund ''mid'' 1) = Inr sg0" and
    cd0: "sig_fund_code sg0 = ''X''"
    by blast
  have cs0: "compute_signals ?v ?vcfg ?vlog = Inr [sg0]"
    by (rule compute_signals_single) (simp_all add: sg0)
  have used: "has_used_extra (sig_fund_code sg0) ?vlog"
    using cd0 by (simp add: example_ledger_simps)
  have "signal_type sg0 \<noteq> ''extra_buy''"
    using extra_buy_at_most_once [where w = ?v and cfg = ?vcfg and trade_log = ?vlog
        and signals = "[sg0]" and sg = sg0] cs0 used
    by simp
  with cs0 used have gate: "\<exists>sg. compute_signals ?v ?vcfg ?vlog = Inr [sg] \<and>
        has_used_extra (sig_fund_code sg) ?vlog \<and> signal_type sg \<noteq> ''extra_buy''"
    by blast
  from extra_buy_count_full_quota once twice gate show ?thesis by simp
qed

end
